theory Spec2Isabelle
  imports Main
begin

section \<open>Go values used by the program\<close>

text \<open>
  The service is built with the Go 1.15 toolchain for a 64-bit platform (the Dockerfile
  uses \<^verbatim>\<open>golang:1.15\<close>), so \<^verbatim>\<open>int\<close> is a 64-bit two's complement integer. Values of that
  type are modelled as \<^typ>\<open>int\<close>; every arithmetic result is passed through \<open>int64\<close>,
  which writes the wrap-around out.
\<close>

definition MaxInt64 :: int where
  "MaxInt64 = 9223372036854775807"

definition MinInt64 :: int where
  "MinInt64 = - 9223372036854775808"

definition int64 :: "int \<Rightarrow> int" where
  "int64 x = (x + 9223372036854775808) mod 18446744073709551616 - 9223372036854775808"

definition is_int64 :: "int \<Rightarrow> bool" where
  "is_int64 x = (MinInt64 \<le> x \<and> x \<le> MaxInt64)"

subsection \<open>\<^verbatim>\<open>strconv.Atoi\<close>\<close>

text \<open>
  \<^verbatim>\<open>strconv.Atoi\<close> belongs to the Go standard library. It returns a value and an error.
  The value is 0 on a syntax error. On a range error it is the bound of \<^verbatim>\<open>int\<close> with the
  sign of the input (\<^verbatim>\<open>ParseInt\<close>: "the returned value is the maximum magnitude integer of
  the appropriate bitSize and sign"). An optional sign is followed by at least one decimal
  digit. \<open>ParseUint\<close> is the digit loop of \<^verbatim>\<open>strconv.ParseUint\<close> for base 10 and 64 bits,
  with its accumulator as first argument: the digits are read from left to right, and the
  scan stops at the first character that is no digit (syntax error) or at the first digit
  that takes the accumulator beyond 64 bits (range error), whichever comes first. The
  shortcut of \<^verbatim>\<open>Atoi\<close> for inputs of fewer than 19 characters computes the same results.
\<close>

datatype NumError = ErrSyntax | ErrRange

definition digit :: "char \<Rightarrow> nat option" where
  "digit c = (let n = (of_char c :: nat) in if 48 \<le> n \<and> n \<le> 57 then Some (n - 48) else None)"

fun ParseUint :: "nat \<Rightarrow> string \<Rightarrow> NumError + nat" where
  "ParseUint n [] = Inr n"
| "ParseUint n (c # cs) =
     (case digit c of
        None \<Rightarrow> Inl ErrSyntax
      | Some d \<Rightarrow>
          if n * 10 + d > 18446744073709551615 then Inl ErrRange
          else ParseUint (n * 10 + d) cs)"

definition Atoi :: "string \<Rightarrow> int \<times> NumError option" where
  "Atoi s =
     (if s = [] then (0, Some ErrSyntax)
      else
        let neg = (hd s = CHR ''-'');
            s' = (if hd s = CHR ''+'' \<or> hd s = CHR ''-'' then tl s else s)
        in if s' = [] then (0, Some ErrSyntax)
           else
             (case ParseUint 0 s' of
                Inl ErrSyntax \<Rightarrow> (0, Some ErrSyntax)
              | Inl ErrRange \<Rightarrow> (if neg then MinInt64 else MaxInt64, Some ErrRange)
              | Inr un \<Rightarrow>
                  if \<not> neg \<and> int un \<ge> 9223372036854775808 then (MaxInt64, Some ErrRange)
                  else if neg \<and> int un > 9223372036854775808 then (MinInt64, Some ErrRange)
                  else (if neg then - int un else int un, None)))"

section \<open>Pagination of the transaction query\<close>

text \<open>
  Of an HTTP request the handlers use the result of \<^verbatim>\<open>ioutil.ReadAll(r.Body)\<close> (the message
  of the read error, or the bytes) and \<^verbatim>\<open>r.FormValue\<close>, which gives the empty string for
  an absent parameter.
\<close>

record Request =
  Body :: "string + string"
  FormValue :: "string \<Rightarrow> string"

text \<open>
  \<^verbatim>\<open>Paginate\<close> reads the form values \<^verbatim>\<open>page\<close> and \<^verbatim>\<open>pageSize\<close>, drops the error of
  \<^verbatim>\<open>Atoi\<close>, and hands an offset and a limit to the query. The three local variables of the
  closure are given one definition each.
\<close>

definition Paginate_page :: "Request \<Rightarrow> int" where
  "Paginate_page r =
     (let page = fst (Atoi (FormValue r ''page''))
      in if page = 0 then 1 else page)"

definition Paginate_pageSize :: "Request \<Rightarrow> int" where
  "Paginate_pageSize r =
     (let pageSize = fst (Atoi (FormValue r ''pageSize''))
      in if pageSize > 100 then 100
         else if pageSize \<le> 0 then 10
         else pageSize)"

definition Paginate_offset :: "Request \<Rightarrow> int" where
  "Paginate_offset r = int64 ((Paginate_page r - 1) * Paginate_pageSize r)"

text \<open>The pair \<open>(offset, limit)\<close> of \<^verbatim>\<open>db.Offset(offset).Limit(pageSize)\<close>.\<close>

definition Paginate :: "Request \<Rightarrow> int \<times> int" where
  "Paginate r = (Paginate_offset r, Paginate_pageSize r)"

section \<open>The transaction record and the store\<close>

text \<open>
  \<^verbatim>\<open>Transaction\<close> of \<^verbatim>\<open>internal/etx/etx.go\<close>. The columns of the embedded \<^verbatim>\<open>gorm.Model\<close>
  (timestamps kept by the library) are not part of the record: no function of the program
  reads or writes them.
\<close>

type_synonym MetadataMap = "string \<rightharpoonup> string"

record Transaction =
  ID :: string
  Blockchain :: string
  Metadata :: MetadataMap
  Monitoring :: bool
  Pending :: bool
  Checks :: int
  Success :: bool
  Reviewed :: bool
  Error :: string

text \<open>The zero value \<^verbatim>\<open>Transaction{}\<close>.\<close>

definition Transaction_zero :: Transaction where
  "Transaction_zero =
     \<lparr>ID = '''', Blockchain = '''', Metadata = Map.empty, Monitoring = False, Pending = False,
      Checks = 0, Success = False, Reviewed = False, Error = ''''\<rparr>"

text \<open>
  The persistent store is the package variable \<^verbatim>\<open>DB\<close>. It is an external collaborator
  (gorm over PostgreSQL); the model is a table, the list of its rows, passed in and
  returned by every operation that touches it. Three operations of the library are used:

  \<^item> \<^verbatim>\<open>DB.Find(&out, &Transaction{...})\<close> selects the rows that satisfy a struct condition.
    gorm builds the condition from the non-zero fields of the struct only: a field that
    holds the zero value of its type (\<^verbatim>\<open>false\<close>, \<^verbatim>\<open>0\<close>, \<^verbatim>\<open>""\<close>, a nil map) is left out of
    the \<^verbatim>\<open>WHERE\<close> clause. No condition struct built by the program sets \<^verbatim>\<open>Metadata\<close>, and
    \<open>struct_where\<close> leaves that column unconstrained.
  \<^item> \<^verbatim>\<open>DB.Find(&Transaction{ID: id}).Updates(ut)\<close> and \<^verbatim>\<open>....Update(column, value)\<close> patch
    the named columns of the rows the statement selects and leave every other column as
    it is. The key condition follows the same rule as a struct condition. With a
    non-empty \<^verbatim>\<open>id\<close> the rows with that key are selected. With an empty \<^verbatim>\<open>id\<close> the \<^verbatim>\<open>Find\<close>
    has no key condition and loads the first row of the table into the struct, and the
    update is keyed by the \<^verbatim>\<open>id\<close> of that row; when that \<^verbatim>\<open>id\<close> is empty as well, or the
    table has no row, no key condition is left and every row is selected.
  \<^item> \<^verbatim>\<open>DB.Create(t)\<close> inserts a row; \<^verbatim>\<open>id\<close> is the primary key, and a second row with a
    key that is already there is refused.
\<close>

type_synonym DB = "Transaction list"

definition struct_where :: "Transaction \<Rightarrow> Transaction \<Rightarrow> bool" where
  "struct_where c r =
     ((ID c = '''' \<or> ID r = ID c) \<and>
      (Blockchain c = '''' \<or> Blockchain r = Blockchain c) \<and>
      (\<not> Monitoring c \<or> Monitoring r) \<and>
      (\<not> Pending c \<or> Pending r) \<and>
      (Checks c = 0 \<or> Checks r = Checks c) \<and>
      (\<not> Success c \<or> Success r) \<and>
      (\<not> Reviewed c \<or> Reviewed r) \<and>
      (Error c = '''' \<or> Error r = Error c))"

definition Find :: "Transaction \<Rightarrow> DB \<Rightarrow> Transaction list" where
  "Find c db = filter (struct_where c) db"

text \<open>A value of \<^verbatim>\<open>map[string]interface{}\<close> as the program builds it: column name and value.\<close>

datatype column_value = BoolVal bool | IntVal int | StrVal string

fun set_column :: "string \<times> column_value \<Rightarrow> Transaction \<Rightarrow> Transaction" where
  "set_column (c, BoolVal b) r =
     (if c = ''success'' then r\<lparr>Success := b\<rparr>
      else if c = ''pending'' then r\<lparr>Pending := b\<rparr>
      else if c = ''monitoring'' then r\<lparr>Monitoring := b\<rparr>
      else if c = ''reviewed'' then r\<lparr>Reviewed := b\<rparr>
      else r)"
| "set_column (c, IntVal n) r = (if c = ''checks'' then r\<lparr>Checks := n\<rparr> else r)"
| "set_column (c, StrVal s) r =
     (if c = ''error'' then r\<lparr>Error := s\<rparr>
      else if c = ''id'' then r\<lparr>ID := s\<rparr>
      else if c = ''blockchain'' then r\<lparr>Blockchain := s\<rparr>
      else r)"

definition update_key :: "string \<Rightarrow> DB \<Rightarrow> string" where
  "update_key key db =
     (if key = '''' then (case db of [] \<Rightarrow> '''' | r # rs \<Rightarrow> ID r) else key)"

definition Updates :: "string \<Rightarrow> (string \<times> column_value) list \<Rightarrow> DB \<Rightarrow> DB" where
  "Updates key ut db =
     (let k = update_key key db
      in map (\<lambda>r. if k = '''' \<or> ID r = k then fold set_column ut r else r) db)"

definition Update :: "string \<Rightarrow> string \<Rightarrow> column_value \<Rightarrow> DB \<Rightarrow> DB" where
  "Update key column v db = Updates key [(column, v)] db"

text \<open>
  Go errors. \<open>errorString\<close> is a value made by \<^verbatim>\<open>errors.New\<close>; the other constructors
  carry the message of an error that came from the chain client, from the store, from
  reading the request body and from the JSON decoder.
\<close>

datatype error =
    errorString string
  | ChainError string
  | StoreError string
  | ReadError string
  | JSONError string

fun Error_text :: "error \<Rightarrow> string" where
  "Error_text (errorString m) = m"
| "Error_text (ChainError m) = m"
| "Error_text (StoreError m) = m"
| "Error_text (ReadError m) = m"
| "Error_text (JSONError m) = m"

definition Create :: "Transaction \<Rightarrow> DB \<Rightarrow> error + DB" where
  "Create t db =
     (if ID t \<in> set (map ID db)
      then Inl (StoreError ''duplicate key value violates unique constraint'')
      else Inr (db @ [t]))"

section \<open>The chain client registry and the process environment\<close>

text \<open>
  A chain client answers two queries. \<^verbatim>\<open>TransactionByHash\<close> returns the transaction, the
  pending flag and an error; the transaction is used for its hash only and is kept as
  that hash. \<^verbatim>\<open>TransactionReceipt\<close> returns the receipt and an error; the receipt is used
  for its \<^verbatim>\<open>Status\<close> only (an unsigned integer). An error is kept as its message.
\<close>

type_synonym hash = nat

record Client =
  TransactionByHash :: "hash \<Rightarrow> string + (hash \<times> bool)"
  TransactionReceipt :: "hash \<Rightarrow> string + nat"

text \<open>
  What the functions read from outside: the environment variables (\<^verbatim>\<open>os.Getenv\<close>), the
  package variable \<^verbatim>\<open>Clients\<close> (filled once at start-up), and the library function
  \<^verbatim>\<open>common.HexToHash\<close>, which is left open.
\<close>

record world =
  Getenv :: "string \<Rightarrow> string"
  Clients :: "string \<rightharpoonup> Client"
  HexToHash :: "string \<Rightarrow> hash"

definition GetBlockchainClient :: "world \<Rightarrow> string \<Rightarrow> error + Client" where
  "GetBlockchainClient w name =
     (case Clients w name of
        Some c \<Rightarrow> Inr c
      | None \<Rightarrow> Inl (errorString ''blockchain client not found''))"

section \<open>One pass of the state machine\<close>

text \<open>
  \<^verbatim>\<open>ChecksThreshold\<close> mutates the record it is called on; the model returns the record.
  When \<^verbatim>\<open>CHECKS_THRESHOLD\<close> does not parse, the function returns before the comparison.
\<close>

definition ChecksThreshold :: "world \<Rightarrow> Transaction \<Rightarrow> Transaction" where
  "ChecksThreshold w t =
     (case Atoi (Getenv w ''CHECKS_THRESHOLD'') of
        (sc, Some serr) \<Rightarrow> t
      | (sc, None) \<Rightarrow>
          if Checks t > sc
          then t\<lparr>Error := ''exceeded checks threshold'', Monitoring := False,
                 Pending := False, Success := False\<rparr>
          else t)"

text \<open>
  \<^verbatim>\<open>Save\<close> returns \<^verbatim>\<open>nil\<close> on every path; the model returns the record after
  \<^verbatim>\<open>ChecksThreshold\<close> and the store after the update.
\<close>

definition Save :: "world \<Rightarrow> Transaction \<Rightarrow> DB \<Rightarrow> Transaction \<times> DB" where
  "Save w t db =
     (let t = ChecksThreshold w t;
          ut = [(''success'', BoolVal (Success t)),
                (''pending'', BoolVal (Pending t)),
                (''error'', StrVal (Error t)),
                (''monitoring'', BoolVal (Monitoring t)),
                (''checks'', IntVal (Checks t))]
      in (t, Updates (ID t) ut db))"

text \<open>
  \<^verbatim>\<open>CheckSuccess\<close> returns the error (\<open>None\<close> for \<^verbatim>\<open>nil\<close>), the record it was called on
  after its mutations, and the store.
\<close>

definition CheckSuccess :: "world \<Rightarrow> Transaction \<Rightarrow> DB \<Rightarrow> error option \<times> Transaction \<times> DB" where
  "CheckSuccess w t db =
     (let t = t\<lparr>Checks := int64 (Checks t + 1)\<rparr>;
          txHash = HexToHash w (ID t)
      in case GetBlockchainClient w (Blockchain t) of
           Inl cerr \<Rightarrow> (Some cerr, t, db)
         | Inr c \<Rightarrow>
             (case TransactionByHash c txHash of
                Inl err \<Rightarrow>
                  (let t = t\<lparr>Pending := False, Monitoring := False, Error := err\<rparr>;
                       (t, db) = Save w t db
                   in (Some (ChainError err), t, db))
              | Inr (tx, isPending) \<Rightarrow>
                  if isPending then
                    (let t = t\<lparr>Pending := True, Monitoring := True\<rparr>;
                         (t, db) = Save w t db
                     in (None, t, db))
                  else
                    (let t = t\<lparr>Pending := False, Monitoring := False\<rparr>
                     in case TransactionReceipt c tx of
                          Inl err \<Rightarrow>
                            (let t = t\<lparr>Error := err\<rparr>;
                                 (t, db) = Save w t db
                             in (Some (ChainError err), t, db))
                        | Inr status \<Rightarrow>
                            (let t = (if status > 0 then t\<lparr>Success := True\<rparr>
                                      else t\<lparr>Success := False, Error := ''failure''\<rparr>);
                                 (t, db) = Save w t db
                             in (None, t, db)))))"

section \<open>Creating a record and marking it reviewed\<close>

definition New :: "Transaction \<Rightarrow> DB \<Rightarrow> error option \<times> Transaction \<times> DB" where
  "New t db =
     (let t = t\<lparr>Monitoring := True\<rparr>
      in case Create t db of
           Inl e \<Rightarrow> (Some e, t, db)
         | Inr db' \<Rightarrow> (None, t, db'))"

definition SetReviewed :: "Transaction \<Rightarrow> DB \<Rightarrow> error option \<times> DB" where
  "SetReviewed t db = (None, Update (ID t) ''reviewed'' (BoolVal (Reviewed t)) db)"

definition MonitoredTransactions :: "DB \<Rightarrow> Transaction list \<times> error option" where
  "MonitoredTransactions db =
     (Find (Transaction_zero\<lparr>Monitoring := True, Reviewed := False\<rparr>) db, None)"

section \<open>The handler of \<^verbatim>\<open>POST /transaction\<close>\<close>

text \<open>
  \<^verbatim>\<open>json.Unmarshal(bd, &t)\<close> is given the address of the pointer \<^verbatim>\<open>t\<close>. It fails with an
  error, or fills the record \<^verbatim>\<open>t\<close> points to (fields absent from the body keep their zero
  value), or, for the JSON literal \<^verbatim>\<open>null\<close>, sets \<^verbatim>\<open>t\<close> to nil and reports no error. The
  decoder itself is a parameter of the handler.

  A handler that returns without writing anything answers 200 with an empty body;
  \<^verbatim>\<open>http.Error\<close> writes the status code and the message followed by a newline. With \<^verbatim>\<open>t\<close>
  nil, the read of \<^verbatim>\<open>t.ID\<close> for the log line panics and the handler writes no response:
  the result \<open>None\<close>.
\<close>

datatype decoded = Decoded Transaction | DecodedNull | DecodeFailed string

record Response =
  StatusCode :: nat
  ResponseBody :: string

definition StatusOK :: nat where
  "StatusOK = 200"

definition StatusBadRequest :: nat where
  "StatusBadRequest = 400"

definition http_Error :: "string \<Rightarrow> nat \<Rightarrow> Response" where
  "http_Error msg code = \<lparr>StatusCode = code, ResponseBody = msg @ [CHR 0x0A]\<rparr>"

definition HandleNewTransaction ::
  "(string \<Rightarrow> decoded) \<Rightarrow> Request \<Rightarrow> DB \<Rightarrow> Response option \<times> DB" where
  "HandleNewTransaction Unmarshal r db =
     (case Body r of
        Inl berr \<Rightarrow> (Some (http_Error berr StatusBadRequest), db)
      | Inr bd \<Rightarrow>
          (case Unmarshal bd of
             DecodeFailed jerr \<Rightarrow> (Some (http_Error jerr StatusBadRequest), db)
           | DecodedNull \<Rightarrow> (None, db)
           | Decoded t \<Rightarrow>
               (case New t db of
                  (Some terr, t', db') \<Rightarrow>
                    (Some (http_Error (Error_text terr) StatusBadRequest), db')
                | (None, t', db') \<Rightarrow>
                    (Some \<lparr>StatusCode = StatusOK, ResponseBody = ''''\<rparr>, db'))))"

section \<open>The sweep\<close>

text \<open>
  \<^verbatim>\<open>CheckMonitoredTransactions\<close> starts ten goroutines running \<^verbatim>\<open>monitorWorker\<close>, sends
  \<^verbatim>\<open>&t\<close> on \<^verbatim>\<open>tin\<close> once per element of the snapshot \<^verbatim>\<open>txs\<close>, closes \<^verbatim>\<open>tin\<close>, receives
  \<^verbatim>\<open>len(txs)\<close> times from \<^verbatim>\<open>tout\<close> and returns. Both channels have capacity \<^verbatim>\<open>len(txs)\<close>,
  so no send ever blocks.

  The channels carry pointers. In the Go version the program is built with (1.15), the
  variable \<^verbatim>\<open>t\<close> of \<^verbatim>\<open>for _, t := range txs\<close> is one variable for the whole loop: every
  iteration assigns the next element to it, and \<^verbatim>\<open>&t\<close> is the same address every time.
  The model therefore has a heap, and the range variable lives at the address \<open>addr_t\<close>.

  The goroutines interleave, so the sweep is a transition system: \<open>step\<close> gives the
  effect of one event of one goroutine, or \<open>None\<close> when that event cannot happen in the
  state (the goroutine is somewhere else, or it is blocked on a channel). A run is a list
  of events, chosen by the scheduler. \<^verbatim>\<open>MonitoredTransactions\<close> never returns an error,
  so the early return of the sweep is no event.
\<close>

type_synonym addr = nat

definition addr_t :: addr where
  "addr_t = 0"

text \<open>Where a \<^verbatim>\<open>monitorWorker\<close> is: at the receive of \<^verbatim>\<open>range tin\<close>, holding a pointer
  before \<^verbatim>\<open>t.CheckSuccess(ctx)\<close>, holding it before \<^verbatim>\<open>tout <- t\<close>, or past its loop.\<close>

datatype worker = Receiving | Checking addr | Sending addr | Exited

record sweep =
  sw_DB :: DB
  sw_heap :: "addr \<rightharpoonup> Transaction"
  sw_txs :: "Transaction list"
  sw_sent :: nat
  sw_tin :: "addr list"
  sw_tin_closed :: bool
  sw_tout :: "addr list"
  sw_workers :: "worker list"
  sw_received :: nat
  sw_returned :: bool

definition CheckMonitoredTransactions_start :: "DB \<Rightarrow> sweep" where
  "CheckMonitoredTransactions_start db =
     \<lparr>sw_DB = db, sw_heap = Map.empty, sw_txs = fst (MonitoredTransactions db), sw_sent = 0,
      sw_tin = [], sw_tin_closed = False, sw_tout = [],
      sw_workers = replicate 10 Receiving, sw_received = 0, sw_returned = False\<rparr>"

datatype event =
    SendTin          \<comment> \<open>one iteration of the range loop: \<^verbatim>\<open>t = txs[k]; tin <- &t\<close>\<close>
  | CloseTin         \<comment> \<open>\<^verbatim>\<open>close(tin)\<close>, after the range loop\<close>
  | Recv nat         \<comment> \<open>worker \<open>k\<close>: the receive of \<^verbatim>\<open>for t := range tin\<close>\<close>
  | Check nat        \<comment> \<open>worker \<open>k\<close>: \<^verbatim>\<open>t.CheckSuccess(ctx)\<close>\<close>
  | SendTout nat     \<comment> \<open>worker \<open>k\<close>: \<^verbatim>\<open>tout <- t\<close>\<close>
  | RecvTout         \<comment> \<open>one iteration of the last loop: \<^verbatim>\<open><-tout\<close>\<close>
  | Return           \<comment> \<open>\<^verbatim>\<open>return nil\<close>\<close>

fun step :: "world \<Rightarrow> event \<Rightarrow> sweep \<Rightarrow> sweep option" where
  "step w SendTin s =
     (if sw_sent s < length (sw_txs s)
      then Some (s\<lparr>sw_heap := (sw_heap s)(addr_t \<mapsto> sw_txs s ! sw_sent s),
                   sw_tin := sw_tin s @ [addr_t],
                   sw_sent := sw_sent s + 1\<rparr>)
      else None)"
| "step w CloseTin s =
     (if sw_sent s = length (sw_txs s) \<and> \<not> sw_tin_closed s
      then Some (s\<lparr>sw_tin_closed := True\<rparr>)
      else None)"
| "step w (Recv k) s =
     (if k < length (sw_workers s) \<and> sw_workers s ! k = Receiving
      then (case sw_tin s of
              a # rest \<Rightarrow>
                Some (s\<lparr>sw_tin := rest, sw_workers := (sw_workers s)[k := Checking a]\<rparr>)
            | [] \<Rightarrow>
                if sw_tin_closed s
                then Some (s\<lparr>sw_workers := (sw_workers s)[k := Exited]\<rparr>)
                else None)
      else None)"
| "step w (Check k) s =
     (if k < length (sw_workers s)
      then (case sw_workers s ! k of
              Checking a \<Rightarrow>
                (case sw_heap s a of
                   Some t \<Rightarrow>
                     (case CheckSuccess w t (sw_DB s) of
                        (err, t', db') \<Rightarrow>
                          Some (s\<lparr>sw_DB := db', sw_heap := (sw_heap s)(a \<mapsto> t'),
                                   sw_workers := (sw_workers s)[k := Sending a]\<rparr>))
                 | None \<Rightarrow> None)
            | _ \<Rightarrow> None)
      else None)"
| "step w (SendTout k) s =
     (if k < length (sw_workers s)
      then (case sw_workers s ! k of
              Sending a \<Rightarrow>
                Some (s\<lparr>sw_tout := sw_tout s @ [a],
                         sw_workers := (sw_workers s)[k := Receiving]\<rparr>)
            | _ \<Rightarrow> None)
      else None)"
| "step w RecvTout s =
     (if sw_tin_closed s \<and> sw_received s < length (sw_txs s) \<and> sw_tout s \<noteq> []
      then Some (s\<lparr>sw_tout := tl (sw_tout s), sw_received := sw_received s + 1\<rparr>)
      else None)"
| "step w Return s =
     (if sw_tin_closed s \<and> sw_received s = length (sw_txs s) \<and> \<not> sw_returned s
      then Some (s\<lparr>sw_returned := True\<rparr>)
      else None)"

fun run :: "world \<Rightarrow> event list \<Rightarrow> sweep \<Rightarrow> sweep option" where
  "run w [] s = Some s"
| "run w (e # es) s = (case step w e s of None \<Rightarrow> None | Some s' \<Rightarrow> run w es s')"

text \<open>The sweep under a schedule: the state in which \<^verbatim>\<open>CheckMonitoredTransactions\<close> has
  returned, or \<open>None\<close> when the schedule is not a run of the program up to its return.\<close>

definition CheckMonitoredTransactions :: "world \<Rightarrow> event list \<Rightarrow> DB \<Rightarrow> sweep option" where
  "CheckMonitoredTransactions w sched db =
     (case run w sched (CheckMonitoredTransactions_start db) of
        Some s \<Rightarrow> if sw_returned s then Some s else None
      | None \<Rightarrow> None)"

section \<open>The consistency of the flags\<close>

text \<open>The property of the specification (a success is neither pending nor carries an error),
  together with what a pass needs of the record it starts from to keep that property: a
  record under monitoring has neither a success nor an error.\<close>

definition flags_consistent :: "Transaction \<Rightarrow> bool" where
  "flags_consistent r =
     ((Success r \<longrightarrow> \<not> Pending r \<and> Error r = '''') \<and>
      (Monitoring r \<longrightarrow> \<not> Success r \<and> Error r = ''''))"

section \<open>Counting the passes of a run\<close>

text \<open>The number of \<^verbatim>\<open>CheckSuccess\<close> calls in a schedule, and the balance of a sweep that
  every step keeps: each pointer sent on \<^verbatim>\<open>tin\<close> is in the queue, held by a worker about
  to check, or checked; each checked pointer is held by a worker about to signal, queued
  on \<^verbatim>\<open>tout\<close>, or received by the coordinator.\<close>

fun is_Check :: "event \<Rightarrow> bool" where
  "is_Check (Check k) = True"
| "is_Check _ = False"

fun is_Checking :: "worker \<Rightarrow> bool" where
  "is_Checking (Checking a) = True"
| "is_Checking _ = False"

fun is_Sending :: "worker \<Rightarrow> bool" where
  "is_Sending (Sending a) = True"
| "is_Sending _ = False"

definition passes :: "event list \<Rightarrow> nat" where
  "passes sched = length (filter is_Check sched)"

definition sweep_inv :: "nat \<Rightarrow> sweep \<Rightarrow> bool" where
  "sweep_inv c s =
     (sw_sent s \<le> length (sw_txs s) \<and>
      length (sw_tin s) + length (filter is_Checking (sw_workers s)) + c = sw_sent s \<and>
      c = length (filter is_Sending (sw_workers s)) + length (sw_tout s) + sw_received s \<and>
      (sw_returned s \<longrightarrow> sw_received s = length (sw_txs s)))"

section \<open>Scenarios\<close>

text \<open>Concrete records, chain clients, environments, requests and schedules, used to run
  the definitions on the scenarios of the specification.\<close>

subsection \<open>Chain clients and environments\<close>

text \<open>A client that reports every transaction as mined with receipt status 1, and one that
  reports every transaction as pending.\<close>

definition client_success :: Client where
  "client_success =
     \<lparr>TransactionByHash = (\<lambda>h. Inr (h, False)), TransactionReceipt = (\<lambda>h. Inr 1)\<rparr>"

definition client_pending :: Client where
  "client_pending =
     \<lparr>TransactionByHash = (\<lambda>h. Inr (h, True)), TransactionReceipt = (\<lambda>h. Inl ''not found'')\<rparr>"

text \<open>A client whose node cannot be reached.\<close>

definition client_refused :: Client where
  "client_refused =
     \<lparr>TransactionByHash = (\<lambda>h. Inl ''connection refused''),
      TransactionReceipt = (\<lambda>h. Inl ''connection refused'')\<rparr>"

text \<open>An environment with the one chain \<^verbatim>\<open>eth\<close> and a given \<^verbatim>\<open>CHECKS_THRESHOLD\<close>.\<close>

definition world_eth :: "string \<Rightarrow> Client \<Rightarrow> world" where
  "world_eth threshold c =
     \<lparr>Getenv = (\<lambda>k. if k = ''CHECKS_THRESHOLD'' then threshold else ''''),
      Clients = [''eth'' \<mapsto> c],
      HexToHash = (\<lambda>s. 0)\<rparr>"

definition world5_mined :: world where
  "world5_mined = world_eth ''5'' client_success"

definition world5_pending :: world where
  "world5_pending = world_eth ''5'' client_pending"

definition world5_refused :: world where
  "world5_refused = world_eth ''5'' client_refused"

subsection \<open>Records\<close>

text \<open>Request bodies as decoded, before \<^verbatim>\<open>New\<close>.\<close>

definition body_abc :: Transaction where
  "body_abc = Transaction_zero\<lparr>ID := ''0xabc'', Blockchain := ''eth''\<rparr>"

definition body_success_pending :: Transaction where
  "body_success_pending = body_abc\<lparr>Pending := True, Success := True\<rparr>"

definition body_success :: Transaction where
  "body_success = body_abc\<lparr>Success := True\<rparr>"

definition body_error :: Transaction where
  "body_error = body_abc\<lparr>Error := ''timeout''\<rparr>"

text \<open>The record \<^verbatim>\<open>{id:"0xabc", chain:"eth", checks:0}\<close> as created, and variants of it.\<close>

definition tx_abc :: Transaction where
  "tx_abc = Transaction_zero\<lparr>ID := ''0xabc'', Blockchain := ''eth'', Monitoring := True\<rparr>"

definition tx_abc_confirmed :: Transaction where
  "tx_abc_confirmed = tx_abc\<lparr>Checks := 1, Monitoring := False, Success := True\<rparr>"

definition tx_abc5 :: Transaction where
  "tx_abc5 = tx_abc\<lparr>Checks := 5\<rparr>"

definition tx_abc5_abandoned :: Transaction where
  "tx_abc5_abandoned =
     tx_abc\<lparr>Checks := 6, Monitoring := False, Error := ''exceeded checks threshold''\<rparr>"

definition tx_abc6 :: Transaction where
  "tx_abc6 = tx_abc\<lparr>Checks := 6\<rparr>"

definition tx_abc6_abandoned :: Transaction where
  "tx_abc6_abandoned =
     tx_abc\<lparr>Checks := 7, Monitoring := False, Error := ''exceeded checks threshold''\<rparr>"

definition tx_abc_checks7 :: Transaction where
  "tx_abc_checks7 = tx_abc\<lparr>Checks := 7\<rparr>"

definition tx_abc_timeout :: Transaction where
  "tx_abc_timeout = tx_abc\<lparr>Error := ''timeout''\<rparr>"

definition tx_abc_reviewed :: Transaction where
  "tx_abc_reviewed = tx_abc\<lparr>Reviewed := True\<rparr>"

definition tx_abc_confirmed_reviewed :: Transaction where
  "tx_abc_confirmed_reviewed = tx_abc_confirmed\<lparr>Reviewed := True\<rparr>"

definition tx_unknown :: Transaction where
  "tx_unknown = tx_abc\<lparr>Blockchain := ''unknown''\<rparr>"

text \<open>The confirmed record after a further pass that met an unreachable node, and the
  record confirmed after three passes.\<close>

definition tx_abc_refused :: Transaction where
  "tx_abc_refused =
     tx_abc\<lparr>Checks := 2, Monitoring := False, Success := True, Error := ''connection refused''\<rparr>"

definition tx_abc_done :: Transaction where
  "tx_abc_done = tx_abc\<lparr>Checks := 3, Monitoring := False, Success := True\<rparr>"

text \<open>A record created from a body without \<^verbatim>\<open>txid\<close>, and what one pass makes of it.\<close>

definition tx_noid :: Transaction where
  "tx_noid = Transaction_zero\<lparr>Blockchain := ''eth'', Monitoring := True\<rparr>"

definition tx_noid_confirmed :: Transaction where
  "tx_noid_confirmed = tx_noid\<lparr>Checks := 1, Monitoring := False, Success := True\<rparr>"

text \<open>A second record, and what one pass and two passes make of it.\<close>

definition tx_def :: Transaction where
  "tx_def = Transaction_zero\<lparr>ID := ''0xdef'', Blockchain := ''eth'', Monitoring := True\<rparr>"

definition tx_def_confirmed :: Transaction where
  "tx_def_confirmed = tx_def\<lparr>Checks := 1, Monitoring := False, Success := True\<rparr>"

definition tx_def_twice :: Transaction where
  "tx_def_twice = tx_def\<lparr>Checks := 2, Monitoring := False, Success := True\<rparr>"

text \<open>The second record created with a counter two below the largest \<^verbatim>\<open>int\<close>, and what
  one pass and two passes make of it.\<close>

definition tx_def_big :: Transaction where
  "tx_def_big = tx_def\<lparr>Checks := 9223372036854775806\<rparr>"

definition tx_def_big_abandoned :: Transaction where
  "tx_def_big_abandoned =
     tx_def\<lparr>Checks := 9223372036854775807, Monitoring := False,
            Error := ''exceeded checks threshold''\<rparr>"

definition tx_def_wrapped :: Transaction where
  "tx_def_wrapped =
     tx_def\<lparr>Checks := - 9223372036854775808, Monitoring := False, Success := True,
            Error := ''exceeded checks threshold''\<rparr>"

subsection \<open>Requests\<close>

text \<open>A query request with the parameters \<^verbatim>\<open>page\<close> and \<^verbatim>\<open>pageSize\<close>.\<close>

definition req :: "string \<Rightarrow> string \<Rightarrow> Request" where
  "req p ps =
     \<lparr>Body = Inr '''',
      FormValue = (\<lambda>k. if k = ''page'' then p else if k = ''pageSize'' then ps else '''')\<rparr>"

text \<open>Request bodies, and a decoder that knows them: two JSON objects, the literal
  \<^verbatim>\<open>null\<close>, and anything else is malformed.\<close>

definition quoted :: "string \<Rightarrow> string" where
  "quoted s = CHR 0x22 # s @ [CHR 0x22]"

definition json_abc :: string where
  "json_abc = ''{'' @ quoted ''txid'' @ '':'' @ quoted ''0xabc'' @ '','' @
              quoted ''blockchain'' @ '':'' @ quoted ''eth'' @ ''}''"

definition json_abc_checks7 :: string where
  "json_abc_checks7 = ''{'' @ quoted ''txid'' @ '':'' @ quoted ''0xabc'' @ '','' @
              quoted ''blockchain'' @ '':'' @ quoted ''eth'' @ '','' @
              quoted ''checks'' @ '':7}''"

definition Unmarshal_scenario :: "string \<Rightarrow> decoded" where
  "Unmarshal_scenario bd =
     (if bd = json_abc then Decoded body_abc
      else if bd = json_abc_checks7 then Decoded (body_abc\<lparr>Checks := 7\<rparr>)
      else if bd = ''null'' then DecodedNull
      else DecodeFailed ''invalid character'')"

definition post :: "string \<Rightarrow> Request" where
  "post bd = \<lparr>Body = Inr bd, FormValue = (\<lambda>k. '''')\<rparr>"

definition post_unreadable :: Request where
  "post_unreadable = \<lparr>Body = Inl ''unexpected EOF'', FormValue = (\<lambda>k. '''')\<rparr>"

subsection \<open>Schedules\<close>

text \<open>Two schedules of a sweep over two records. In the first no worker runs before the
  dispatch loop and \<^verbatim>\<open>close(tin)\<close> are over, and worker 0 then takes both queue entries. In
  the second a worker takes each entry and finishes its pass before the loop goes on.\<close>

definition schedule_workers_late :: "event list" where
  "schedule_workers_late =
     [SendTin, SendTin, CloseTin,
      Recv 0, Check 0, SendTout 0,
      Recv 0, Check 0, SendTout 0,
      RecvTout, RecvTout, Return]"

definition schedule_workers_prompt :: "event list" where
  "schedule_workers_prompt =
     [SendTin, Recv 0, Check 0, SendTout 0,
      SendTin, Recv 1, Check 1, SendTout 1,
      CloseTin, RecvTout, RecvTout, Return]"

section \<open>Basic facts\<close>

subsection \<open>Integers, the threshold and the write of a pass\<close>

lemma int64_id: "is_int64 x \<Longrightarrow> int64 x = x"
  by (simp add: is_int64_def int64_def MinInt64_def MaxInt64_def)

lemma Atoi_is_int64: "is_int64 (fst (Atoi s))"
  by (auto simp: Atoi_def Let_def is_int64_def MinInt64_def MaxInt64_def
      split: if_splits sum.splits NumError.splits)

lemma ChecksThreshold_frame:
  "ID (ChecksThreshold w t) = ID t \<and> Blockchain (ChecksThreshold w t) = Blockchain t \<and>
   Metadata (ChecksThreshold w t) = Metadata t \<and> Reviewed (ChecksThreshold w t) = Reviewed t \<and>
   Checks (ChecksThreshold w t) = Checks t"
  by (simp add: ChecksThreshold_def split: prod.splits option.splits)


lemma ChecksThreshold_within:
  assumes "Atoi (Getenv w ''CHECKS_THRESHOLD'') = (sc, None)" and "Checks t \<le> sc"
  shows "ChecksThreshold w t = t"
  using assms by (simp add: ChecksThreshold_def)

lemma update_key_nonempty: "key \<noteq> '''' \<Longrightarrow> update_key key db = key"
  by (simp add: update_key_def)

lemma update_key_map:
  "(\<And>r. ID (f r) = ID r) \<Longrightarrow> update_key key (map f db) = update_key key db"
  by (cases db) (simp_all add: update_key_def)

lemma Save_eq:
  "Save w t db =
     (ChecksThreshold w t,
      map (\<lambda>r. if update_key (ID t) db = '''' \<or> ID r = update_key (ID t) db
                then r\<lparr>Success := Success (ChecksThreshold w t),
                       Pending := Pending (ChecksThreshold w t),
                       Error := Error (ChecksThreshold w t),
                       Monitoring := Monitoring (ChecksThreshold w t),
                       Checks := Checks t\<rparr>
                else r) db)"
  by (simp add: Save_def Updates_def Let_def ChecksThreshold_frame)

lemma Save_eq_keyed:
  "ID t \<noteq> '''' \<Longrightarrow>
   Save w t db =
     (ChecksThreshold w t,
      map (\<lambda>r. if ID r = ID t
                then r\<lparr>Success := Success (ChecksThreshold w t),
                       Pending := Pending (ChecksThreshold w t),
                       Error := Error (ChecksThreshold w t),
                       Monitoring := Monitoring (ChecksThreshold w t),
                       Checks := Checks t\<rparr>
                else r) db)"
  by (simp add: Save_eq update_key_nonempty)

lemma Save_length: "length (snd (Save w t db)) = length db"
  by (simp add: Save_eq)

lemma Save_frame:
  "map (\<lambda>r. (ID r, Blockchain r, Metadata r, Reviewed r)) (snd (Save w t db)) =
   map (\<lambda>r. (ID r, Blockchain r, Metadata r, Reviewed r)) db"
  by (simp add: Save_eq comp_def)


lemma Update_reviewed:
  "Update k ''reviewed'' (BoolVal b) db =
     map (\<lambda>r. if update_key k db = '''' \<or> ID r = update_key k db
               then r\<lparr>Reviewed := b\<rparr> else r) db"
  by (simp add: Update_def Updates_def Let_def)

lemma Save_SetReviewed_commute:
  "snd (Save w t (snd (SetReviewed u db))) = snd (SetReviewed u (snd (Save w t db)))"
proof -
  have 1: "update_key (ID t)
             (map (\<lambda>r. if update_key (ID u) db = '''' \<or> ID r = update_key (ID u) db
                        then r\<lparr>Reviewed := Reviewed u\<rparr> else r) db) = update_key (ID t) db"
    by (rule update_key_map) simp
  have 2: "update_key (ID u)
             (map (\<lambda>r. if update_key (ID t) db = '''' \<or> ID r = update_key (ID t) db
                        then r\<lparr>Success := Success (ChecksThreshold w t),
                               Pending := Pending (ChecksThreshold w t),
                               Error := Error (ChecksThreshold w t),
                               Monitoring := Monitoring (ChecksThreshold w t),
                               Checks := Checks t\<rparr>
                        else r) db) = update_key (ID u) db"
    by (rule update_key_map) simp
  show ?thesis
    by (simp add: Save_eq SetReviewed_def Update_reviewed 1 2 comp_def)
qed

lemma CheckSuccess_not_found:
  "Clients w (Blockchain t) = None \<Longrightarrow>
   CheckSuccess w t db =
     (Some (errorString ''blockchain client not found''), t\<lparr>Checks := int64 (Checks t + 1)\<rparr>, db)"
  by (simp add: CheckSuccess_def GetBlockchainClient_def Let_def)

lemma CheckSuccess_found:
  assumes "Clients w (Blockchain t) = Some c"
  shows "\<exists>u e. CheckSuccess w t db = (e, fst (Save w u db), snd (Save w u db)) \<and>
           ID u = ID t \<and> Blockchain u = Blockchain t \<and> Metadata u = Metadata t \<and>
           Reviewed u = Reviewed t \<and> Checks u = int64 (Checks t + 1) \<and>
           ((\<not> Pending u \<and> \<not> Monitoring u \<and> Success u = Success t \<and> e \<noteq> None) \<or>
            (Pending u \<and> Monitoring u \<and> Success u = Success t \<and> Error u = Error t \<and> e = None) \<or>
            (\<not> Pending u \<and> \<not> Monitoring u \<and> Success u \<and> Error u = Error t \<and> e = None) \<or>
            (\<not> Pending u \<and> \<not> Monitoring u \<and> \<not> Success u \<and> Error u = ''failure'' \<and> e = None))"
proof (cases "TransactionByHash c (HexToHash w (ID t))")
  case (Inl err)
  then show ?thesis using assms
    by (intro exI [of _ "t\<lparr>Checks := int64 (Checks t + 1), Pending := False,
                           Monitoring := False, Error := err\<rparr>"]
              exI [of _ "Some (ChainError err)"])
       (simp add: CheckSuccess_def GetBlockchainClient_def Let_def split: prod.splits)
next
  case (Inr p)
  obtain tx isPending where p: "p = (tx, isPending)" by (cases p)
  show ?thesis
  proof (cases isPending)
    case True
    then show ?thesis using assms Inr p
      by (intro exI [of _ "t\<lparr>Checks := int64 (Checks t + 1), Pending := True,
                             Monitoring := True\<rparr>"]
                exI [of _ "None"])
         (simp add: CheckSuccess_def GetBlockchainClient_def Let_def split: prod.splits)
  next
    case False
    show ?thesis
    proof (cases "TransactionReceipt c tx")
      case (Inl err)
      then show ?thesis using assms Inr p False
        by (intro exI [of _ "t\<lparr>Checks := int64 (Checks t + 1), Pending := False,
                               Monitoring := False, Error := err\<rparr>"]
                  exI [of _ "Some (ChainError err)"])
           (simp add: CheckSuccess_def GetBlockchainClient_def Let_def split: prod.splits)
    next
      case r: (Inr status)
      show ?thesis
      proof (cases "status > 0")
        case True
        then show ?thesis using assms Inr p False r
          by (intro exI [of _ "t\<lparr>Checks := int64 (Checks t + 1), Pending := False,
                                 Monitoring := False, Success := True\<rparr>"]
                    exI [of _ "None"])
             (simp add: CheckSuccess_def GetBlockchainClient_def Let_def split: prod.splits)
      next
        case F: False
        then show ?thesis using assms Inr p False r
          by (intro exI [of _ "t\<lparr>Checks := int64 (Checks t + 1), Pending := False,
                                 Monitoring := False, Success := False, Error := ''failure''\<rparr>"]
                    exI [of _ "None"])
             (simp add: CheckSuccess_def GetBlockchainClient_def Let_def split: prod.splits)
      qed
    qed
  qed
qed

lemma key_unique:
  assumes "distinct (map ID db)" and "t \<in> set db" and "i < length db" and "ID (db ! i) = ID t"
  shows "db ! i = t"
proof -
  from assms(1) have "inj_on ID (set db)" by (simp add: distinct_map)
  moreover from assms(3) have "db ! i \<in> set db" by simp
  ultimately show ?thesis using assms(2,4) by (auto dest: inj_onD)
qed

lemma Monitored_eq: "fst (MonitoredTransactions db) = filter Monitoring db"
proof -
  have "struct_where (Transaction_zero\<lparr>Monitoring := True, Reviewed := False\<rparr>) = Monitoring"
    by (rule ext) (simp add: struct_where_def Transaction_zero_def)
  then show ?thesis by (simp add: MonitoredTransactions_def Find_def)
qed

subsection \<open>The consistency of the flags under the three writers\<close>

lemma ChecksThreshold_consistent:
  "flags_consistent u \<Longrightarrow> flags_consistent (ChecksThreshold w u)"
  by (auto simp: ChecksThreshold_def flags_consistent_def split: prod.splits option.splits)

lemma flags_consistent_patch:
  "flags_consistent v \<Longrightarrow>
   flags_consistent (r\<lparr>Success := Success v, Pending := Pending v, Error := Error v,
                       Monitoring := Monitoring v, Checks := n\<rparr>)"
  by (simp add: flags_consistent_def)

lemma Save_consistent:
  assumes "\<forall>r\<in>set db. flags_consistent r" and "flags_consistent u"
  shows "\<forall>r\<in>set (snd (Save w u db)). flags_consistent r"
  using assms ChecksThreshold_consistent [OF assms(2), of w]
  by (auto simp: Save_eq flags_consistent_patch)

lemma CheckSuccess_consistent:
  assumes "\<forall>r\<in>set db. flags_consistent r" and "\<not> Success t" and "Error t = ''''"
  shows "\<forall>r\<in>set (snd (snd (CheckSuccess w t db))). flags_consistent r"
proof (cases "Clients w (Blockchain t)")
  case None
  with assms(1) show ?thesis by (simp add: CheckSuccess_not_found)
next
  case (Some c)
  from CheckSuccess_found [OF Some, of db] obtain u e0 where
    u0: "CheckSuccess w t db = (e0, fst (Save w u db), snd (Save w u db))"
    and u1: "(\<not> Pending u \<and> \<not> Monitoring u \<and> Success u = Success t \<and> e0 \<noteq> None) \<or>
            (Pending u \<and> Monitoring u \<and> Success u = Success t \<and> Error u = Error t \<and> e0 = None) \<or>
            (\<not> Pending u \<and> \<not> Monitoring u \<and> Success u \<and> Error u = Error t \<and> e0 = None) \<or>
            (\<not> Pending u \<and> \<not> Monitoring u \<and> \<not> Success u \<and> Error u = ''failure'' \<and> e0 = None)"
    by blast
  from u1 assms(2,3) have "flags_consistent u"
    by (auto simp: flags_consistent_def)
  from Save_consistent [OF assms(1) this, of w] u0 show ?thesis by simp
qed

lemma New_consistent:
  assumes "\<forall>r\<in>set db. flags_consistent r" and "\<not> Success body" and "Error body = ''''"
  shows "\<forall>r\<in>set (snd (snd (New body db))). flags_consistent r"
  using assms
  by (auto simp: New_def Create_def Let_def flags_consistent_def split: if_splits)

lemma SetReviewed_consistent:
  assumes "\<forall>r\<in>set db. flags_consistent r"
  shows "\<forall>r\<in>set (snd (SetReviewed u db)). flags_consistent r"
  using assms
  by (auto simp: SetReviewed_def Update_reviewed flags_consistent_def)

subsection \<open>The scenarios, evaluated\<close>

lemmas scenario_defs = tx_abc_def client_success_def client_pending_def client_refused_def
  world_eth_def Transaction_zero_def
  tx_abc6_def tx_abc6_abandoned_def world5_mined_def tx_abc_confirmed_def tx_abc5_def
  tx_abc5_abandoned_def tx_abc_timeout_def tx_unknown_def tx_def_def tx_abc_reviewed_def
  tx_abc_confirmed_reviewed_def world5_pending_def world5_refused_def body_abc_def
  body_success_pending_def body_success_def body_error_def tx_def_confirmed_def
  tx_def_twice_def tx_noid_def tx_noid_confirmed_def tx_abc_done_def tx_abc_refused_def
  tx_def_big_def tx_def_big_abandoned_def tx_def_wrapped_def

lemmas eval_defs = CheckSuccess_def GetBlockchainClient_def Save_def ChecksThreshold_def Updates_def
  update_key_def Update_def Atoi_def digit_def int64_def MaxInt64_def MinInt64_def Let_def

lemma chain_mined:
  "Clients world5_mined ''eth'' = Some client_success"
  "TransactionByHash client_success h = Inr (h, False)"
  "TransactionReceipt client_success h = Inr 1"
  by (simp_all add: world5_mined_def world_eth_def client_success_def)

lemma threshold_5: "Atoi (Getenv world5_mined ''CHECKS_THRESHOLD'') = (5, None)"
  by (simp add: world5_mined_def world_eth_def Atoi_def digit_def)

lemma tx_abc_fields:
  "ID tx_abc = ''0xabc''" "Blockchain tx_abc = ''eth''" "Checks tx_abc = 0" "Monitoring tx_abc"
  "\<not> Pending tx_abc" "\<not> Success tx_abc" "\<not> Reviewed tx_abc" "Error tx_abc = ''''"
  by (simp_all add: tx_abc_def Transaction_zero_def)

lemma pass_tx_abc:
  "CheckSuccess world5_mined tx_abc [tx_abc] = (None, tx_abc_confirmed, [tx_abc_confirmed])"
  by (simp add: scenario_defs eval_defs)

lemma pass_tx_abc5:
  "CheckSuccess world5_mined tx_abc5 [tx_abc5] = (None, tx_abc5_abandoned, [tx_abc5_abandoned])"
  by (simp add: scenario_defs eval_defs)


lemma pass_tx_abc_timeout:
  "CheckSuccess world5_mined tx_abc_timeout [tx_abc_timeout] =
     (None, tx_abc_timeout\<lparr>Checks := 1, Monitoring := False, Success := True\<rparr>,
      [tx_abc_timeout\<lparr>Checks := 1, Monitoring := False, Success := True\<rparr>])"
  by (simp add: scenario_defs eval_defs)

lemma pass_tx_abc_reviewed_row:
  "CheckSuccess world5_mined tx_abc [tx_abc_reviewed] =
     (None, tx_abc_confirmed, [tx_abc_confirmed_reviewed])"
  by (simp add: scenario_defs eval_defs)

lemma pass_tx_abc_two:
  "CheckSuccess world5_mined tx_abc [tx_abc, tx_def] =
     (None, tx_abc_confirmed, [tx_abc_confirmed, tx_def])"
  by (simp add: scenario_defs eval_defs)

lemma pass_tx_noid:
  "CheckSuccess world5_mined tx_noid [tx_noid, tx_abc_done] =
     (None, tx_noid_confirmed, [tx_noid_confirmed, tx_abc_confirmed])"
  by (simp add: scenario_defs eval_defs)

lemma pass_tx_abc_refused:
  "CheckSuccess world5_refused tx_abc_confirmed [tx_abc_confirmed] =
     (Some (ChainError ''connection refused''), tx_abc_refused, [tx_abc_refused])"
  by (simp add: scenario_defs eval_defs)

lemma Monitored_unknown: "fst (MonitoredTransactions [tx_unknown]) = [tx_unknown]"
  by (simp add: Monitored_eq scenario_defs)

section \<open>Abandonment\<close>



section \<open>The dispatch of a sweep\<close>

lemma Monitored_two: "fst (MonitoredTransactions [tx_abc, tx_def]) = [tx_abc, tx_def]"
  by (simp add: Monitored_eq scenario_defs)

lemma pass_def_1: "CheckSuccess world5_mined tx_def [tx_abc, tx_def] = (None, tx_def_confirmed, [tx_abc, tx_def_confirmed])"
  by (simp add: scenario_defs eval_defs)

lemma pass_def_after_abc: "CheckSuccess world5_mined tx_def [tx_abc_confirmed, tx_def] = (None, tx_def_confirmed, [tx_abc_confirmed, tx_def_confirmed])"
  by (simp add: scenario_defs eval_defs)

lemma pass_def_2: "CheckSuccess world5_mined tx_def_confirmed [tx_abc, tx_def_confirmed] = (None, tx_def_twice, [tx_abc, tx_def_twice])"
  by (simp add: scenario_defs eval_defs)

text \<open>What does hold of every run of the sweep that returns: it has made exactly as many
  calls of \<^verbatim>\<open>CheckSuccess\<close> as the snapshot has records, whatever the schedule; and with an
  empty snapshot it returns at once and leaves the store alone.\<close>

lemma filter_update_length:
  "k < length xs \<Longrightarrow>
   length (filter P (xs[k := y])) + (if P (xs ! k) then 1 else 0) =
   length (filter P xs) + (if P y then 1 else 0)"
proof (induction xs arbitrary: k)
  case Nil
  then show ?case by simp
next
  case (Cons x xs)
  show ?case
  proof (cases k)
    case 0
    then show ?thesis by simp
  next
    case (Suc j)
    with Cons.prems have "j < length xs" by simp
    from Cons.IH [OF this] Suc show ?thesis by simp
  qed
qed

lemma step_inv:
  assumes "sweep_inv c s" and "step w ev s = Some s'"
  shows "sweep_inv (c + (if is_Check ev then 1 else 0)) s' \<and> sw_txs s' = sw_txs s"
proof (cases ev)
  case SendTin
  with assms show ?thesis
    by (auto simp: sweep_inv_def split: if_splits)
next
  case CloseTin
  with assms show ?thesis
    by (auto simp: sweep_inv_def split: if_splits)
next
  case (Recv k)
  show ?thesis
  proof (cases "k < length (sw_workers s) \<and> sw_workers s ! k = Receiving")
    case False
    with assms Recv show ?thesis by (auto split: if_splits)
  next
    case True
    then have k: "k < length (sw_workers s)" and r: "sw_workers s ! k = Receiving" by simp_all
    show ?thesis
    proof (cases "sw_tin s")
      case Nil
      with assms Recv True
      have s': "sw_tin_closed s" "s' = s\<lparr>sw_workers := (sw_workers s)[k := Exited]\<rparr>"
        by (auto split: if_splits)
      from filter_update_length [OF k, of is_Checking Exited]
           filter_update_length [OF k, of is_Sending Exited] r assms(1)
      show ?thesis by (simp add: s' sweep_inv_def Recv)
    next
      case (Cons a rest)
      with assms Recv True
      have s': "s' = s\<lparr>sw_tin := rest, sw_workers := (sw_workers s)[k := Checking a]\<rparr>"
        by auto
      from filter_update_length [OF k, of is_Checking "Checking a"]
           filter_update_length [OF k, of is_Sending "Checking a"] r assms(1) Cons
      show ?thesis by (simp add: s' sweep_inv_def Recv)
    qed
  qed
next
  case (Check k)
  show ?thesis
  proof (cases "k < length (sw_workers s)")
    case False
    with assms Check show ?thesis by simp
  next
    case k: True
    from assms(2) Check k obtain a t where
      wk: "sw_workers s ! k = Checking a" and h: "sw_heap s a = Some t"
      by (auto split: worker.splits option.splits)
    obtain err t' db' where cs: "CheckSuccess w t (sw_DB s) = (err, t', db')"
      by (cases "CheckSuccess w t (sw_DB s)")
    from assms(2) Check k wk h cs
    have s': "s' = s\<lparr>sw_DB := db', sw_heap := (sw_heap s)(a \<mapsto> t'),
                     sw_workers := (sw_workers s)[k := Sending a]\<rparr>"
      by simp
    from filter_update_length [OF k, of is_Checking "Sending a"]
         filter_update_length [OF k, of is_Sending "Sending a"] wk assms(1)
    show ?thesis by (simp add: s' sweep_inv_def Check)
  qed
next
  case (SendTout k)
  show ?thesis
  proof (cases "k < length (sw_workers s)")
    case False
    with assms SendTout show ?thesis by simp
  next
    case k: True
    from assms(2) SendTout k obtain a where
      wk: "sw_workers s ! k = Sending a"
      by (auto split: worker.splits)
    from assms(2) SendTout k wk
    have s': "s' = s\<lparr>sw_tout := sw_tout s @ [a],
                     sw_workers := (sw_workers s)[k := Receiving]\<rparr>"
      by simp
    from filter_update_length [OF k, of is_Checking Receiving]
         filter_update_length [OF k, of is_Sending Receiving] wk assms(1)
    show ?thesis by (simp add: s' sweep_inv_def SendTout)
  qed
next
  case RecvTout
  with assms show ?thesis
    by (cases "sw_tout s") (auto simp: sweep_inv_def split: if_splits)
next
  case Return
  with assms show ?thesis
    by (auto simp: sweep_inv_def split: if_splits)
qed

lemma run_inv:
  "sweep_inv c s \<Longrightarrow> run w sched s = Some s' \<Longrightarrow>
   sweep_inv (c + passes sched) s' \<and> sw_txs s' = sw_txs s"
proof (induction sched arbitrary: c s)
  case Nil
  then show ?case by (simp add: passes_def)
next
  case (Cons ev sched)
  from Cons.prems(2) obtain s1 where
    s1: "step w ev s = Some s1" and r: "run w sched s1 = Some s'"
    by (auto split: option.splits)
  from step_inv [OF Cons.prems(1) s1]
  have i: "sweep_inv (c + (if is_Check ev then 1 else 0)) s1" and t: "sw_txs s1 = sw_txs s"
    by simp_all
  from Cons.IH [OF i r] t show ?case
    by (cases "is_Check ev") (simp_all add: passes_def)
qed

lemma start_inv: "sweep_inv 0 (CheckMonitoredTransactions_start db)"
  by (simp add: sweep_inv_def CheckMonitoredTransactions_start_def)

lemma sweep_passes:
  assumes "CheckMonitoredTransactions w sched db = Some s"
  shows "passes sched = length (fst (MonitoredTransactions db))"
proof -
  from assms have r: "run w sched (CheckMonitoredTransactions_start db) = Some s"
    and ret: "sw_returned s"
    by (auto simp: CheckMonitoredTransactions_def split: option.splits if_splits)
  from run_inv [OF start_inv r]
  have i: "sweep_inv (passes sched) s"
    and t: "sw_txs s = fst (MonitoredTransactions db)"
    by (simp_all add: CheckMonitoredTransactions_start_def)
  from i ret have "passes sched \<le> length (sw_txs s)" "length (sw_txs s) \<le> passes sched"
    unfolding sweep_inv_def by linarith+
  with t show ?thesis by simp
qed

lemma sweep_empty:
  assumes "fst (MonitoredTransactions db) = []"
  shows "map_option sw_DB (CheckMonitoredTransactions w [CloseTin, Return] db) = Some db"
  using assms
  by (simp add: CheckMonitoredTransactions_def CheckMonitoredTransactions_start_def)


text \<open>And what the dispatch loop puts on the queue: in every state of every run, all
  entries of \<^verbatim>\<open>tin\<close> are the one address of the range variable.\<close>

lemma step_tin:
  assumes "set (sw_tin s) \<subseteq> {addr_t}" and "step w ev s = Some s'"
  shows "set (sw_tin s') \<subseteq> {addr_t}"
proof (cases ev)
  case (Recv k)
  with assms show ?thesis
    by (cases "sw_tin s") (auto split: if_splits)
next
  case (Check k)
  with assms show ?thesis
    by (auto split: if_splits worker.splits option.splits prod.splits)
next
  case (SendTout k)
  with assms show ?thesis
    by (auto split: if_splits worker.splits)
qed (use assms in \<open>auto split: if_splits\<close>)

lemma run_tin:
  "set (sw_tin s) \<subseteq> {addr_t} \<Longrightarrow> run w sched s = Some s' \<Longrightarrow> set (sw_tin s') \<subseteq> {addr_t}"
proof (induction sched arbitrary: s)
  case Nil
  then show ?case by simp
next
  case (Cons ev sched)
  from Cons.prems(2) obtain s1 where
    s1: "step w ev s = Some s1" and r: "run w sched s1 = Some s'"
    by (auto split: option.splits)
  from Cons.IH [OF step_tin [OF Cons.prems(1) s1] r] show ?case .
qed

lemma tin_one_pointer:
  assumes "run w sched (CheckMonitoredTransactions_start db) = Some s"
  shows "set (sw_tin s) \<subseteq> {addr_t}"
  by (rule run_tin [OF _ assms]) (simp add: CheckMonitoredTransactions_start_def)

text \<open>
  C2 does not hold of the code. The snapshot is the two monitored, unreviewed records
  \<^verbatim>\<open>0xabc\<close> and \<^verbatim>\<open>0xdef\<close>, both on a configured chain that reports a successful receipt.
  The dispatch loop sends the address of its one range variable twice. When the workers
  run after the loop (the channel is buffered, so the loop never waits for them), both
  queue entries point at the last record: \<^verbatim>\<open>0xdef\<close> is passed twice (its counter goes from
  0 to 2) and \<^verbatim>\<open>0xabc\<close> is never passed, and the sweep returns. Only when every entry is
  taken and used before the next iteration of the loop does each record get its one pass.
\<close>

theorem CheckMonitoredTransactions_shared_variable:
  "fst (MonitoredTransactions [tx_abc, tx_def]) = [tx_abc, tx_def] \<and>
   map_option sw_DB
     (CheckMonitoredTransactions world5_mined schedule_workers_late [tx_abc, tx_def]) =
     Some [tx_abc, tx_def_twice] \<and>
   Checks tx_abc = 0 \<and> Monitoring tx_abc \<and> Checks tx_def = 0 \<and> Checks tx_def_twice = 2 \<and>
   map_option sw_DB
     (CheckMonitoredTransactions world5_mined schedule_workers_prompt [tx_abc, tx_def]) =
     Some [tx_abc_confirmed, tx_def_confirmed]"
proof -
  have late: "map_option sw_DB
      (CheckMonitoredTransactions world5_mined schedule_workers_late [tx_abc, tx_def]) =
      Some [tx_abc, tx_def_twice]"
    by (simp add: CheckMonitoredTransactions_def CheckMonitoredTransactions_start_def
          Monitored_two schedule_workers_late_def addr_t_def pass_def_1 pass_def_2)
  have prompt: "map_option sw_DB
      (CheckMonitoredTransactions world5_mined schedule_workers_prompt [tx_abc, tx_def]) =
      Some [tx_abc_confirmed, tx_def_confirmed]"
    by (simp add: CheckMonitoredTransactions_def CheckMonitoredTransactions_start_def
          Monitored_two schedule_workers_prompt_def addr_t_def pass_tx_abc_two pass_def_after_abc)
  have "Checks tx_abc = 0 \<and> Monitoring tx_abc \<and> Checks tx_def = 0 \<and> Checks tx_def_twice = 2"
    by (simp add: scenario_defs)
  with late prompt Monitored_two show ?thesis by simp
qed

section \<open>Success, pending and error\<close>

lemma create_success_pending:
  "New body_success_pending [] =
     (None, body_success_pending\<lparr>Monitoring := True\<rparr>, [body_success_pending\<lparr>Monitoring := True\<rparr>])"
  by (simp add: New_def Create_def Let_def scenario_defs)

lemma create_success:
  "New body_success [] = (None, body_success\<lparr>Monitoring := True\<rparr>, [body_success\<lparr>Monitoring := True\<rparr>])"
  by (simp add: New_def Create_def Let_def scenario_defs)

lemma pass_created_success:
  "CheckSuccess world5_pending (body_success\<lparr>Monitoring := True\<rparr>) [body_success\<lparr>Monitoring := True\<rparr>] =
     (None, body_success\<lparr>Monitoring := True, Pending := True, Checks := 1\<rparr>,
      [body_success\<lparr>Monitoring := True, Pending := True, Checks := 1\<rparr>])"
  by (simp add: scenario_defs eval_defs)

lemma create_error: "New body_error [] = (None, tx_abc_timeout, [tx_abc_timeout])"
  by (simp add: New_def Create_def Let_def scenario_defs)

lemma pass_def_big_1:
  "CheckSuccess world5_mined tx_def_big [tx_abc, tx_def_big] =
     (None, tx_def_big_abandoned, [tx_abc, tx_def_big_abandoned])"
  by (simp add: scenario_defs eval_defs)

lemma pass_def_big_2:
  "CheckSuccess world5_mined tx_def_big_abandoned [tx_abc, tx_def_big_abandoned] =
     (None, tx_def_wrapped, [tx_abc, tx_def_wrapped])"
  by (simp add: scenario_defs eval_defs)

lemma sweep_def_big:
  "map_option sw_DB
     (CheckMonitoredTransactions world5_mined schedule_workers_late [tx_abc, tx_def_big]) =
     Some [tx_abc, tx_def_wrapped]"
proof -
  have "fst (MonitoredTransactions [tx_abc, tx_def_big]) = [tx_abc, tx_def_big]"
    by (simp add: Monitored_eq scenario_defs)
  then show ?thesis
    by (simp add: CheckMonitoredTransactions_def CheckMonitoredTransactions_start_def
          schedule_workers_late_def addr_t_def pass_def_big_1 pass_def_big_2)
qed

text \<open>
  C3, as stated, fails. \<^verbatim>\<open>New\<close> stores the decoded request body with \<^verbatim>\<open>monitoring\<close> set and
  every other field as the client sent it, and a pass does not reset what it does not
  assign. A body with \<^verbatim>\<open>success\<close> and \<^verbatim>\<open>pending\<close> both true is stored as it is. A body with
  \<^verbatim>\<open>success\<close> true alone is stored, and a pass that finds the transaction pending sets
  \<^verbatim>\<open>pending\<close> and leaves \<^verbatim>\<open>success\<close>. A body with the error text \<^verbatim>\<open>timeout\<close> is stored, and
  a pass that finds a successful receipt sets \<^verbatim>\<open>success\<close> and leaves the text.

  A pass on a record that an earlier pass has left in memory does the same: the confirmed
  record, passed again when the node cannot be reached, keeps \<^verbatim>\<open>success\<close> and takes the
  error text. The sweep makes such passes, since it passes its one range variable once per
  queue entry: with the workers late, the second record (created with \<^verbatim>\<open>success\<close> false, no
  error and a counter two below the largest \<^verbatim>\<open>int\<close>) is abandoned by the first pass and,
  its counter wrapped around, confirmed by the second, which leaves the abandonment text.
\<close>

theorem created_record_counterexample:
  "New body_success_pending [] =
     (None, body_success_pending\<lparr>Monitoring := True\<rparr>, [body_success_pending\<lparr>Monitoring := True\<rparr>]) \<and>
   Success (body_success_pending\<lparr>Monitoring := True\<rparr>) \<and>
   Pending (body_success_pending\<lparr>Monitoring := True\<rparr>) \<and>
   New body_success [] =
     (None, body_success\<lparr>Monitoring := True\<rparr>, [body_success\<lparr>Monitoring := True\<rparr>]) \<and>
   snd (snd (CheckSuccess world5_pending (body_success\<lparr>Monitoring := True\<rparr>)
               [body_success\<lparr>Monitoring := True\<rparr>])) =
     [body_success\<lparr>Monitoring := True, Pending := True, Checks := 1\<rparr>] \<and>
   Success (body_success\<lparr>Monitoring := True, Pending := True, Checks := 1\<rparr>) \<and>
   Pending (body_success\<lparr>Monitoring := True, Pending := True, Checks := 1\<rparr>) \<and>
   New body_error [] = (None, tx_abc_timeout, [tx_abc_timeout]) \<and>
   snd (snd (CheckSuccess world5_mined tx_abc_timeout [tx_abc_timeout])) =
     [tx_abc_timeout\<lparr>Checks := 1, Monitoring := False, Success := True\<rparr>] \<and>
   Success (tx_abc_timeout\<lparr>Checks := 1, Monitoring := False, Success := True\<rparr>) \<and>
   Error (tx_abc_timeout\<lparr>Checks := 1, Monitoring := False, Success := True\<rparr>) = ''timeout'' \<and>
   snd (snd (CheckSuccess world5_refused tx_abc_confirmed [tx_abc_confirmed])) = [tx_abc_refused] \<and>
   Success tx_abc_refused \<and> Error tx_abc_refused = ''connection refused'' \<and>
   \<not> Success tx_def_big \<and> Error tx_def_big = '''' \<and>
   map_option sw_DB
     (CheckMonitoredTransactions world5_mined schedule_workers_late [tx_abc, tx_def_big]) =
     Some [tx_abc, tx_def_wrapped] \<and>
   Success tx_def_wrapped \<and> Error tx_def_wrapped = ''exceeded checks threshold''"
  by (simp add: pass_tx_abc_timeout create_success_pending create_success pass_created_success
        create_error pass_tx_abc_refused sweep_def_big)
     (simp add: scenario_defs)

text \<open>
  C3, amended. Call a record consistent when \<^verbatim>\<open>success == true\<close> implies
  \<^verbatim>\<open>pending == false\<close> and \<^verbatim>\<open>error == ""\<close>, and \<^verbatim>\<open>monitoring == true\<close> implies
  \<^verbatim>\<open>success == false\<close> and \<^verbatim>\<open>error == ""\<close>. In a store whose records are all consistent,
  every record with \<^verbatim>\<open>success == true\<close> has \<^verbatim>\<open>pending == false\<close> and \<^verbatim>\<open>error == ""\<close>, and
  every record of the monitored snapshot has \<^verbatim>\<open>success\<close> false and \<^verbatim>\<open>error\<close> empty. The
  records of the store are all consistent again after a create via \<^verbatim>\<open>New\<close> whose request
  body has \<^verbatim>\<open>success\<close> false and \<^verbatim>\<open>error\<close> empty, after a pass of \<^verbatim>\<open>CheckSuccess\<close> on a record
  with \<^verbatim>\<open>success\<close> false and \<^verbatim>\<open>error\<close> empty, and after \<^verbatim>\<open>SetReviewed\<close>. A pass on a
  record that an earlier pass has changed in memory is not covered.
\<close>

theorem flags_consistent_preserved:
  assumes "\<forall>r\<in>set db. flags_consistent r"
  shows "(\<forall>r\<in>set db. Success r \<longrightarrow> \<not> Pending r \<and> Error r = '''') \<and>
         (\<forall>t\<in>set (fst (MonitoredTransactions db)). \<not> Success t \<and> Error t = '''') \<and>
         (\<not> Success body \<and> Error body = '''' \<longrightarrow>
            (\<forall>r\<in>set (snd (snd (New body db))). flags_consistent r)) \<and>
         (\<not> Success t \<and> Error t = '''' \<longrightarrow>
            (\<forall>r\<in>set (snd (snd (CheckSuccess w t db))). flags_consistent r)) \<and>
         (\<forall>r\<in>set (snd (SetReviewed u db)). flags_consistent r)"
proof -
  from assms have 1: "\<forall>r\<in>set db. Success r \<longrightarrow> \<not> Pending r \<and> Error r = ''''"
    by (simp add: flags_consistent_def)
  from assms have 2: "\<forall>t\<in>set (fst (MonitoredTransactions db)). \<not> Success t \<and> Error t = ''''"
    by (simp add: Monitored_eq flags_consistent_def)
  have 3: "\<forall>r\<in>set (snd (snd (New body db))). flags_consistent r"
    if "\<not> Success body \<and> Error body = ''''"
    using New_consistent [OF assms, of body] that by blast
  have 4: "\<forall>r\<in>set (snd (snd (CheckSuccess w t db))). flags_consistent r"
    if "\<not> Success t \<and> Error t = ''''"
    using CheckSuccess_consistent [OF assms, of t w] that by blast
  from 1 2 3 4 SetReviewed_consistent [OF assms, of u] show ?thesis by blast
qed

text \<open>The record of the specification's scenario: the store with that record as created
  is consistent, and one pass confirms the record.\<close>

theorem flags_consistent_preserved_witness:
  "flags_consistent tx_abc \<and> \<not> Success tx_abc \<and> Error tx_abc = '''' \<and>
   snd (snd (CheckSuccess world5_mined tx_abc [tx_abc])) = [tx_abc_confirmed] \<and>
   flags_consistent tx_abc_confirmed \<and>
   Success tx_abc_confirmed \<and> \<not> Pending tx_abc_confirmed \<and> Error tx_abc_confirmed = ''''"
proof -
  have c: "\<forall>r\<in>set [tx_abc]. flags_consistent r"
    by (simp add: flags_consistent_def tx_abc_fields)
  have t: "\<not> Success tx_abc \<and> Error tx_abc = ''''"
    by (simp add: tx_abc_fields)
  from flags_consistent_preserved [OF c, of _ tx_abc world5_mined] t
  have "\<forall>r\<in>set (snd (snd (CheckSuccess world5_mined tx_abc [tx_abc]))). flags_consistent r"
    by blast
  then have f: "flags_consistent tx_abc_confirmed"
    by (simp add: pass_tx_abc)
  then have "\<not> Pending tx_abc_confirmed \<and> Error tx_abc_confirmed = ''''"
    by (simp add: flags_consistent_def tx_abc_confirmed_def)
  moreover have "Success tx_abc_confirmed"
    by (simp add: tx_abc_confirmed_def)
  ultimately show ?thesis using c t f by (simp add: pass_tx_abc)
qed

section \<open>The checks counter\<close>

text \<open>
  C4, as stated, fails: a record that the sweep selects and whose chain name is not in the
  registry leaves its pass with the persisted counter unchanged, because \<^verbatim>\<open>CheckSuccess\<close>
  returns before \<^verbatim>\<open>Save\<close>; the increment is lost with the in-memory copy. And a pass on a
  record with an empty id has no key to write by: with that record in the first row, the
  write goes to every row, and the counter of a record that is not monitored drops from 3
  to 1.
\<close>

theorem CheckSuccess_checks_counterexample:
  "fst (MonitoredTransactions [tx_unknown]) = [tx_unknown] \<and>
   Checks tx_unknown = 0 \<and>
   snd (snd (CheckSuccess world5_mined tx_unknown [tx_unknown])) = [tx_unknown] \<and>
   map Checks (snd (snd (CheckSuccess world5_mined tx_unknown [tx_unknown]))) \<noteq>
     [Checks tx_unknown + 1] \<and>
   fst (MonitoredTransactions [tx_noid, tx_abc_done]) = [tx_noid] \<and>
   snd (snd (CheckSuccess world5_mined tx_noid [tx_noid, tx_abc_done])) =
     [tx_noid_confirmed, tx_abc_confirmed] \<and>
   Checks tx_abc_done = 3 \<and> Checks tx_abc_confirmed = 1"
proof -
  have "Clients world5_mined (Blockchain tx_unknown) = None"
    by (simp add: scenario_defs)
  then have "snd (snd (CheckSuccess world5_mined tx_unknown [tx_unknown])) = [tx_unknown]"
    by (simp add: CheckSuccess_not_found)
  moreover have "Checks tx_unknown = 0" "Checks tx_abc_done = 3" "Checks tx_abc_confirmed = 1"
    by (simp_all add: scenario_defs)
  moreover have "fst (MonitoredTransactions [tx_noid, tx_abc_done]) = [tx_noid]"
    by (simp add: Monitored_eq scenario_defs)
  ultimately show ?thesis by (simp add: Monitored_unknown pass_tx_noid)
qed

text \<open>
  C4, amended. A pass of \<^verbatim>\<open>CheckSuccess\<close> on a record with a non-empty id as it stands in
  the store (keys are unique, the counter is below the largest \<^verbatim>\<open>int\<close>) keeps the rows of
  the store; when the chain client of the record is found, the persisted counter of the
  record after the pass is its value before the pass plus exactly one; when the client is
  not found, the row of the record is unchanged; every other row is unchanged; and no
  counter decreases.
\<close>

theorem CheckSuccess_checks:
  assumes "CheckSuccess w t db = (e, t', db')"
    and "t \<in> set db" and "distinct (map ID db)" and "ID t \<noteq> ''''"
    and "MinInt64 \<le> Checks t" and "Checks t < MaxInt64"
  shows "length db' = length db \<and>
         (\<forall>i<length db.
            (db ! i = t \<and> Clients w (Blockchain t) \<noteq> None \<longrightarrow> Checks (db' ! i) = Checks t + 1) \<and>
            (db ! i = t \<and> Clients w (Blockchain t) = None \<longrightarrow> db' ! i = db ! i) \<and>
            (db ! i \<noteq> t \<longrightarrow> db' ! i = db ! i) \<and>
            Checks (db ! i) \<le> Checks (db' ! i))"
proof (cases "Clients w (Blockchain t)")
  case None
  with assms(1) have "db' = db" by (simp add: CheckSuccess_not_found)
  with None show ?thesis by simp
next
  case (Some c)
  have inc: "int64 (Checks t + 1) = Checks t + 1"
    using assms(5,6) by (intro int64_id) (simp add: is_int64_def MinInt64_def MaxInt64_def)
  from CheckSuccess_found [OF Some, of db] obtain v e0 where
    v0: "CheckSuccess w t db = (e0, fst (Save w v db), snd (Save w v db))"
    and v1: "ID v = ID t" "Checks v = int64 (Checks t + 1)"
    by blast
  from v0 assms(1) have "db' = snd (Save w v db)" by (metis snd_conv)
  note v = this v1
  from assms(4) v1 have k: "ID v \<noteq> ''''" by simp
  have len: "length db' = length db" by (simp add: v Save_length)
  have row: "\<And>i. i < length db \<Longrightarrow> db ! i = t \<Longrightarrow> Checks (db' ! i) = Checks t + 1"
    by (simp add: v Save_eq_keyed [OF k] inc)
  have other: "\<And>i. i < length db \<Longrightarrow> db ! i \<noteq> t \<Longrightarrow> db' ! i = db ! i"
    using key_unique [OF assms(3,2)] by (auto simp: v Save_eq_keyed [OF k])
  have mono: "\<And>i. i < length db \<Longrightarrow> Checks (db ! i) \<le> Checks (db' ! i)"
  proof -
    fix i assume i: "i < length db"
    show "Checks (db ! i) \<le> Checks (db' ! i)"
      using row [OF i] other [OF i] by (cases "db ! i = t") simp_all
  qed
  show ?thesis using Some len row other mono by simp
qed

theorem CheckSuccess_checks_witness:
  "CheckSuccess world5_mined tx_abc [tx_abc, tx_def] =
     (None, tx_abc_confirmed, [tx_abc_confirmed, tx_def]) \<and>
   tx_abc \<in> set [tx_abc, tx_def] \<and> distinct (map ID [tx_abc, tx_def]) \<and>
   ID tx_abc \<noteq> '''' \<and>
   MinInt64 \<le> Checks tx_abc \<and> Checks tx_abc < MaxInt64 \<and>
   Clients world5_mined (Blockchain tx_abc) \<noteq> None \<and>
   Checks tx_abc_confirmed = Checks tx_abc + 1 \<and>
   [tx_abc_confirmed, tx_def] ! 1 = [tx_abc, tx_def] ! 1"
proof -
  have h: "tx_abc \<in> set [tx_abc, tx_def]" "distinct (map ID [tx_abc, tx_def])"
      "ID tx_abc \<noteq> ''''" "MinInt64 \<le> Checks tx_abc" "Checks tx_abc < MaxInt64"
    by (simp_all add: scenario_defs MinInt64_def MaxInt64_def)
  have c: "Clients world5_mined (Blockchain tx_abc) \<noteq> None"
    by (simp add: scenario_defs)
  have n: "tx_def \<noteq> tx_abc"
    by (simp add: scenario_defs)
  from CheckSuccess_checks [OF pass_tx_abc_two h]
  have a: "\<forall>i<length [tx_abc, tx_def].
            ([tx_abc, tx_def] ! i = tx_abc \<and> Clients world5_mined (Blockchain tx_abc) \<noteq> None \<longrightarrow>
               Checks ([tx_abc_confirmed, tx_def] ! i) = Checks tx_abc + 1) \<and>
            ([tx_abc, tx_def] ! i \<noteq> tx_abc \<longrightarrow> [tx_abc_confirmed, tx_def] ! i = [tx_abc, tx_def] ! i)"
    by blast
  from a [rule_format, of 0] c have "Checks tx_abc_confirmed = Checks tx_abc + 1" by simp
  moreover from a [rule_format, of 1] n have "[tx_abc_confirmed, tx_def] ! 1 = [tx_abc, tx_def] ! 1"
    by simp
  ultimately show ?thesis using h c pass_tx_abc_two by simp
qed

section \<open>A confirmed success\<close>

text \<open>
  C5, as stated, fails in two ways. A record whose counter equals the threshold is at most
  the threshold, but the pass increments the counter before \<^verbatim>\<open>Save\<close> compares it: with
  checks 5 and threshold 5 the mined, successful transaction is written as abandoned. And
  the success branch does not touch \<^verbatim>\<open>error\<close>: a record that enters the pass with the
  error text \<^verbatim>\<open>timeout\<close> leaves it with \<^verbatim>\<open>success = true\<close> and that same text.
\<close>

theorem CheckSuccess_at_threshold_counterexample:
  "Atoi (Getenv world5_mined ''CHECKS_THRESHOLD'') = (5, None) \<and>
   Checks tx_abc5 \<le> 5 \<and>
   Clients world5_mined (Blockchain tx_abc5) = Some client_success \<and>
   TransactionByHash client_success (HexToHash world5_mined (ID tx_abc5)) =
     Inr (HexToHash world5_mined (ID tx_abc5), False) \<and>
   TransactionReceipt client_success (HexToHash world5_mined (ID tx_abc5)) = Inr 1 \<and>
   CheckSuccess world5_mined tx_abc5 [tx_abc5] = (None, tx_abc5_abandoned, [tx_abc5_abandoned]) \<and>
   \<not> Success tx_abc5_abandoned \<and>
   Error tx_abc5_abandoned = ''exceeded checks threshold'' \<and>
   Checks tx_abc_timeout \<le> 5 \<and>
   Error (fst (snd (CheckSuccess world5_mined tx_abc_timeout [tx_abc_timeout]))) = ''timeout'' \<and>
   Success (fst (snd (CheckSuccess world5_mined tx_abc_timeout [tx_abc_timeout])))"
  by (simp add: threshold_5 pass_tx_abc5 pass_tx_abc_timeout chain_mined)
     (simp add: scenario_defs)

text \<open>
  C5, amended. For every record whose checks counter is strictly below the threshold (so
  that the incremented counter is at most the threshold), whose chain client is found and
  reports \<^verbatim>\<open>isPending == false\<close> and a receipt with status above 0, one pass of
  \<^verbatim>\<open>CheckSuccess\<close> returns \<^verbatim>\<open>nil\<close> and ends with \<^verbatim>\<open>success = true\<close>, \<^verbatim>\<open>pending = false\<close>,
  \<^verbatim>\<open>monitoring = false\<close>, checks incremented by one and \<^verbatim>\<open>error\<close> unchanged (empty when
  it was empty), every other field of the record being unchanged; and when the id of the
  record is not empty, the store after the pass has these five values in every row with
  that id and is unchanged elsewhere.
\<close>

theorem CheckSuccess_confirmed_success:
  assumes "Clients w (Blockchain t) = Some c"
    and "TransactionByHash c (HexToHash w (ID t)) = Inr (tx, False)"
    and "TransactionReceipt c tx = Inr status"
    and "0 < status"
    and "Atoi (Getenv w ''CHECKS_THRESHOLD'') = (sc, None)"
    and "Checks t < sc"
    and "MinInt64 \<le> Checks t"
  shows "fst (CheckSuccess w t db) = None \<and>
         fst (snd (CheckSuccess w t db)) =
           t\<lparr>Checks := Checks t + 1, Pending := False, Monitoring := False, Success := True\<rparr> \<and>
         (ID t \<noteq> '''' \<longrightarrow>
            snd (snd (CheckSuccess w t db)) =
              map (\<lambda>r. if ID r = ID t
                        then r\<lparr>Success := True, Pending := False, Error := Error t,
                               Monitoring := False, Checks := Checks t + 1\<rparr>
                        else r) db)"
proof -
  have "is_int64 sc"
    using Atoi_is_int64 [of "Getenv w ''CHECKS_THRESHOLD''"] assms(5) by simp
  with assms(6,7) have "is_int64 (Checks t + 1)"
    by (simp add: is_int64_def)
  then have inc: "int64 (Checks t + 1) = Checks t + 1"
    by (rule int64_id)
  have thr: "ChecksThreshold w
               (t\<lparr>Checks := Checks t + 1, Pending := False, Monitoring := False, Success := True\<rparr>) =
             t\<lparr>Checks := Checks t + 1, Pending := False, Monitoring := False, Success := True\<rparr>"
    using assms(6) by (intro ChecksThreshold_within [OF assms(5)]) simp
  have pass: "CheckSuccess w t db =
      (None,
       Save w (t\<lparr>Checks := Checks t + 1, Pending := False, Monitoring := False, Success := True\<rparr>) db)"
    using assms(1-4)
    by (simp add: CheckSuccess_def GetBlockchainClient_def Let_def inc split: prod.splits)
  show ?thesis
    by (simp add: pass Save_eq thr update_key_nonempty)
qed

text \<open>The scenario of the specification: \<^verbatim>\<open>{id:"0xabc", chain:"eth", checks:0}\<close>, threshold 5,
  the chain reports \<^verbatim>\<open>pending=false\<close> and receipt status 1.\<close>

theorem CheckSuccess_confirmed_success_witness:
  "Clients world5_mined (Blockchain tx_abc) = Some client_success \<and>
   TransactionByHash client_success (HexToHash world5_mined (ID tx_abc)) =
     Inr (HexToHash world5_mined (ID tx_abc), False) \<and>
   TransactionReceipt client_success (HexToHash world5_mined (ID tx_abc)) = Inr 1 \<and>
   Atoi (Getenv world5_mined ''CHECKS_THRESHOLD'') = (5, None) \<and>
   Checks tx_abc < 5 \<and> MinInt64 \<le> Checks tx_abc \<and> ID tx_abc \<noteq> '''' \<and>
   CheckSuccess world5_mined tx_abc [tx_abc] = (None, tx_abc_confirmed, [tx_abc_confirmed]) \<and>
   Success tx_abc_confirmed \<and> \<not> Pending tx_abc_confirmed \<and> \<not> Monitoring tx_abc_confirmed \<and>
   Checks tx_abc_confirmed = 1 \<and> Error tx_abc_confirmed = ''''"
proof -
  have h1: "Clients world5_mined (Blockchain tx_abc) = Some client_success"
    by (simp add: chain_mined tx_abc_fields)
  have h2: "TransactionByHash client_success (HexToHash world5_mined (ID tx_abc)) =
     Inr (HexToHash world5_mined (ID tx_abc), False)"
    by (simp add: chain_mined)
  have h3: "TransactionReceipt client_success (HexToHash world5_mined (ID tx_abc)) = Inr 1"
    by (simp add: chain_mined)
  have h6: "Checks tx_abc < 5" and h7: "MinInt64 \<le> Checks tx_abc" and h8: "ID tx_abc \<noteq> ''''"
    by (simp_all add: tx_abc_fields MinInt64_def)
  have r: "tx_abc\<lparr>Checks := Checks tx_abc + 1, Pending := False, Monitoring := False,
                  Success := True\<rparr> = tx_abc_confirmed"
    by (simp add: scenario_defs)
  have m: "map (\<lambda>r. if ID r = ID tx_abc
                    then r\<lparr>Success := True, Pending := False, Error := Error tx_abc,
                           Monitoring := False, Checks := Checks tx_abc + 1\<rparr>
                    else r) [tx_abc] = [tx_abc_confirmed]"
    by (simp add: scenario_defs)
  have a: "fst (CheckSuccess world5_mined tx_abc [tx_abc]) = None \<and>
      fst (snd (CheckSuccess world5_mined tx_abc [tx_abc])) =
        tx_abc\<lparr>Checks := Checks tx_abc + 1, Pending := False, Monitoring := False,
               Success := True\<rparr> \<and>
      (ID tx_abc \<noteq> '''' \<longrightarrow>
         snd (snd (CheckSuccess world5_mined tx_abc [tx_abc])) =
           map (\<lambda>r. if ID r = ID tx_abc
                     then r\<lparr>Success := True, Pending := False, Error := Error tx_abc,
                            Monitoring := False, Checks := Checks tx_abc + 1\<rparr>
                     else r) [tx_abc])"
    by (rule CheckSuccess_confirmed_success [OF h1 h2 h3 _ threshold_5 h6 h7]) simp
  from a have a1: "fst (CheckSuccess world5_mined tx_abc [tx_abc]) = None"
    by blast
  from a have a2: "fst (snd (CheckSuccess world5_mined tx_abc [tx_abc])) = tx_abc_confirmed"
    unfolding r by blast
  from a h8 have a3: "snd (snd (CheckSuccess world5_mined tx_abc [tx_abc])) = [tx_abc_confirmed]"
    unfolding m by blast
  from a1 a2 a3
  have "fst (CheckSuccess world5_mined tx_abc [tx_abc]) = None \<and>
        fst (snd (CheckSuccess world5_mined tx_abc [tx_abc])) = tx_abc_confirmed \<and>
        snd (snd (CheckSuccess world5_mined tx_abc [tx_abc])) = [tx_abc_confirmed]"
    by blast
  then have "CheckSuccess world5_mined tx_abc [tx_abc] =
      (None, tx_abc_confirmed, [tx_abc_confirmed])"
    by (cases "CheckSuccess world5_mined tx_abc [tx_abc]") simp
  moreover have "Success tx_abc_confirmed \<and> \<not> Pending tx_abc_confirmed \<and>
      \<not> Monitoring tx_abc_confirmed \<and> Checks tx_abc_confirmed = 1 \<and> Error tx_abc_confirmed = ''''"
    by (simp add: scenario_defs)
  ultimately show ?thesis
    using h1 h2 h3 h6 h7 h8 threshold_5 by simp
qed

section \<open>The create endpoint\<close>

lemmas post_defs = quoted_def json_abc_def json_abc_checks7_def Unmarshal_scenario_def post_def
  post_unreadable_def tx_abc_checks7_def

lemma post_abc_checks7:
  "HandleNewTransaction Unmarshal_scenario (post json_abc_checks7) [] =
     (Some \<lparr>StatusCode = 200, ResponseBody = ''''\<rparr>, [tx_abc_checks7])"
  by (simp add: HandleNewTransaction_def New_def Create_def Let_def StatusOK_def post_defs scenario_defs)

lemma New_abc: "fst (New body_abc []) = None" "fst (New body_abc [tx_abc]) = Some (StoreError ''duplicate key value violates unique constraint'')"
  by (simp_all add: New_def Create_def Let_def scenario_defs)

lemma Unmarshal_scenario_values:
  "Unmarshal_scenario json_abc = Decoded body_abc"
  "Unmarshal_scenario ''{'' = DecodeFailed ''invalid character''"
  by (simp_all add: post_defs)

lemma post_Body: "Body (post bd) = Inr bd" "Body post_unreadable = Inl ''unexpected EOF''"
  by (simp_all add: post_defs)

text \<open>
  C6, as stated, fails: \<^verbatim>\<open>New\<close> sets \<^verbatim>\<open>monitoring\<close> and nothing else, so the stored counter
  is the one of the request body. The body
  \<^verbatim>\<open>{"txid":"0xabc","blockchain":"eth","checks":7}\<close> is stored with \<^verbatim>\<open>checks = 7\<close>.
\<close>

theorem HandleNewTransaction_checks_counterexample:
  "Unmarshal_scenario json_abc_checks7 = Decoded (body_abc\<lparr>Checks := 7\<rparr>) \<and>
   HandleNewTransaction Unmarshal_scenario (post json_abc_checks7) [] =
     (Some \<lparr>StatusCode = 200, ResponseBody = ''''\<rparr>, [tx_abc_checks7]) \<and>
   Checks tx_abc_checks7 = 7 \<and> Checks tx_abc_checks7 \<noteq> 0"
  by (simp add: post_abc_checks7) (simp add: post_defs scenario_defs)

text \<open>
  C6, amended. For every request to \<^verbatim>\<open>POST /transaction\<close>: when the body cannot be read or
  decoded, or \<^verbatim>\<open>New\<close> fails, the response is 400 with the error text (and a newline) and
  the store is unchanged; when \<^verbatim>\<open>New\<close> succeeds, the response is 200 with an empty body,
  and the stored record is the decoded record with \<^verbatim>\<open>monitoring = true\<close>: its \<^verbatim>\<open>checks\<close> is
  the value of the request body, 0 when the body has none.
\<close>

theorem HandleNewTransaction_responses:
  "(Body r = Inl berr \<longrightarrow>
      HandleNewTransaction Unmarshal r db = (Some (http_Error berr StatusBadRequest), db)) \<and>
   (Body r = Inr bd \<and> Unmarshal bd = DecodeFailed jerr \<longrightarrow>
      HandleNewTransaction Unmarshal r db = (Some (http_Error jerr StatusBadRequest), db)) \<and>
   (Body r = Inr bd \<and> Unmarshal bd = Decoded t \<and> fst (New t db) = Some terr \<longrightarrow>
      HandleNewTransaction Unmarshal r db =
        (Some (http_Error (Error_text terr) StatusBadRequest), db)) \<and>
   (Body r = Inr bd \<and> Unmarshal bd = Decoded t \<and> fst (New t db) = None \<longrightarrow>
      HandleNewTransaction Unmarshal r db =
        (Some \<lparr>StatusCode = StatusOK, ResponseBody = ''''\<rparr>, db @ [t\<lparr>Monitoring := True\<rparr>]) \<and>
      Monitoring (last (snd (HandleNewTransaction Unmarshal r db))) \<and>
      Checks (last (snd (HandleNewTransaction Unmarshal r db))) = Checks t)"
  by (auto simp: HandleNewTransaction_def New_def Create_def Let_def split: if_splits)

text \<open>A first create, a second create with the same id, a malformed body, and a body
  that cannot be read.\<close>

theorem HandleNewTransaction_responses_witness:
  "HandleNewTransaction Unmarshal_scenario (post json_abc) [] =
     (Some \<lparr>StatusCode = 200, ResponseBody = ''''\<rparr>, [tx_abc]) \<and>
   Monitoring tx_abc \<and> Checks tx_abc = 0 \<and>
   HandleNewTransaction Unmarshal_scenario (post json_abc) [tx_abc] =
     (Some \<lparr>StatusCode = 400,
            ResponseBody = ''duplicate key value violates unique constraint'' @ [CHR 0x0A]\<rparr>,
      [tx_abc]) \<and>
   HandleNewTransaction Unmarshal_scenario (post ''{'') [] =
     (Some \<lparr>StatusCode = 400, ResponseBody = ''invalid character'' @ [CHR 0x0A]\<rparr>, []) \<and>
   HandleNewTransaction Unmarshal_scenario post_unreadable [] =
     (Some \<lparr>StatusCode = 400, ResponseBody = ''unexpected EOF'' @ [CHR 0x0A]\<rparr>, [])"
proof -
  have t: "body_abc\<lparr>Monitoring := True\<rparr> = tx_abc" "Monitoring tx_abc" "Checks tx_abc = 0"
    by (simp_all add: scenario_defs)
  from HandleNewTransaction_responses
         [of "post json_abc" _ Unmarshal_scenario "[]" json_abc _ body_abc]
  have 1: "HandleNewTransaction Unmarshal_scenario (post json_abc) [] =
     (Some \<lparr>StatusCode = 200, ResponseBody = ''''\<rparr>, [tx_abc])"
    by (simp add: post_Body Unmarshal_scenario_values New_abc t StatusOK_def)
  from HandleNewTransaction_responses
         [of "post json_abc" _ Unmarshal_scenario "[tx_abc]" json_abc _ body_abc
             "StoreError ''duplicate key value violates unique constraint''"]
  have 2: "HandleNewTransaction Unmarshal_scenario (post json_abc) [tx_abc] =
     (Some \<lparr>StatusCode = 400,
            ResponseBody = ''duplicate key value violates unique constraint'' @ [CHR 0x0A]\<rparr>,
      [tx_abc])"
    by (simp add: post_Body Unmarshal_scenario_values New_abc http_Error_def StatusBadRequest_def)
  from HandleNewTransaction_responses
         [of "post ''{''" _ Unmarshal_scenario "[]" "''{''" "''invalid character''"]
  have 3: "HandleNewTransaction Unmarshal_scenario (post ''{'') [] =
     (Some \<lparr>StatusCode = 400, ResponseBody = ''invalid character'' @ [CHR 0x0A]\<rparr>, [])"
    by (simp add: post_Body Unmarshal_scenario_values http_Error_def StatusBadRequest_def)
  from HandleNewTransaction_responses
         [of post_unreadable "''unexpected EOF''" Unmarshal_scenario "[]"]
  have 4: "HandleNewTransaction Unmarshal_scenario post_unreadable [] =
     (Some \<lparr>StatusCode = 400, ResponseBody = ''unexpected EOF'' @ [CHR 0x0A]\<rparr>, [])"
    by (simp add: post_Body http_Error_def StatusBadRequest_def)
  from 1 2 3 4 t show ?thesis by simp
qed


section \<open>An unknown chain\<close>

text \<open>
  C7. For every record whose chain name is not in the client registry, one pass of
  \<^verbatim>\<open>CheckSuccess\<close> returns the error \<^verbatim>\<open>blockchain client not found\<close>, increments checks
  (by exactly one below the largest \<^verbatim>\<open>int\<close>), changes no other field of the record and
  leaves the store as it was: nothing is written. The error is the value made by
  \<^verbatim>\<open>errors.New\<close> in \<^verbatim>\<open>GetBlockchainClient\<close>, never an error of the chain client.
\<close>

theorem CheckSuccess_client_not_found:
  assumes "Clients w (Blockchain t) = None"
  shows "CheckSuccess w t db =
           (Some (errorString ''blockchain client not found''),
            t\<lparr>Checks := int64 (Checks t + 1)\<rparr>, db) \<and>
         (is_int64 (Checks t) \<and> Checks t < MaxInt64 \<longrightarrow>
            fst (snd (CheckSuccess w t db)) = t\<lparr>Checks := Checks t + 1\<rparr>) \<and>
         (\<forall>m. fst (CheckSuccess w t db) \<noteq> Some (ChainError m))"
proof -
  have "is_int64 (Checks t) \<and> Checks t < MaxInt64 \<Longrightarrow> int64 (Checks t + 1) = Checks t + 1"
    by (intro int64_id) (simp add: is_int64_def)
  then show ?thesis
    by (auto simp add: CheckSuccess_not_found [OF assms])
qed

theorem CheckSuccess_client_not_found_witness:
  "Clients world5_mined (Blockchain tx_unknown) = None \<and>
   CheckSuccess world5_mined tx_unknown [tx_unknown] =
     (Some (errorString ''blockchain client not found''), tx_unknown\<lparr>Checks := 1\<rparr>, [tx_unknown])"
proof -
  have h: "Clients world5_mined (Blockchain tx_unknown) = None"
    by (simp add: scenario_defs)
  have "int64 (Checks tx_unknown + 1) = 1"
    by (simp add: scenario_defs int64_def)
  with CheckSuccess_client_not_found [OF h, of "[tx_unknown]"] h show ?thesis
    by simp
qed

section \<open>Marking a record reviewed\<close>

text \<open>
  C8. \<^verbatim>\<open>SetReviewed\<close> is idempotent: for every record (its id and its reviewed value) and
  every store, running it a second time with the same input returns the same result and
  leaves the store as the first run left it.
\<close>

theorem SetReviewed_idempotent:
  "SetReviewed t (snd (SetReviewed t db)) = SetReviewed t db"
  by (simp add: SetReviewed_def Update_reviewed update_key_map comp_def)

theorem SetReviewed_idempotent_witness:
  "snd (SetReviewed (tx_abc\<lparr>Reviewed := True\<rparr>) [tx_abc, tx_def]) =
     [tx_abc\<lparr>Reviewed := True\<rparr>, tx_def] \<and>
   snd (SetReviewed (tx_abc\<lparr>Reviewed := True\<rparr>)
         (snd (SetReviewed (tx_abc\<lparr>Reviewed := True\<rparr>) [tx_abc, tx_def]))) =
     [tx_abc\<lparr>Reviewed := True\<rparr>, tx_def]"
proof -
  have "snd (SetReviewed (tx_abc\<lparr>Reviewed := True\<rparr>) [tx_abc, tx_def]) =
     [tx_abc\<lparr>Reviewed := True\<rparr>, tx_def]"
    by (simp add: SetReviewed_def Update_reviewed update_key_def scenario_defs)
  with SetReviewed_idempotent [of "tx_abc\<lparr>Reviewed := True\<rparr>" "[tx_abc, tx_def]"]
  show ?thesis by simp
qed


section \<open>Pagination\<close>

lemma Atoi_ErrSyntax: "snd (Atoi s) = Some ErrSyntax \<Longrightarrow> fst (Atoi s) = 0"
  by (auto simp: Atoi_def Let_def split: if_splits sum.splits NumError.splits)

lemma Atoi_ErrRange:
  "snd (Atoi s) = Some ErrRange \<Longrightarrow> fst (Atoi s) = MinInt64 \<or> fst (Atoi s) = MaxInt64"
  by (auto simp: Atoi_def Let_def split: if_splits sum.splits NumError.splits)

lemma Atoi_range_sign:
  "snd (Atoi s) = Some ErrRange \<Longrightarrow>
   fst (Atoi s) = (if hd s = CHR ''-'' then MinInt64 else MaxInt64)"
  by (auto simp: Atoi_def Let_def split: if_splits sum.splits NumError.splits)

lemma Atoi_empty: "Atoi '''' = (0, Some ErrSyntax)"
  by (simp add: Atoi_def)

lemmas Paginate_eval = Paginate_def Paginate_offset_def Paginate_pageSize_def Paginate_page_def
  Atoi_def digit_def MaxInt64_def MinInt64_def int64_def is_int64_def req_def

text \<open>
  C9, as stated, fails: a parameter that \<^verbatim>\<open>Atoi\<close> cannot parse because its numeral is out of
  range does not read as 0. The request \<^verbatim>\<open>?page=9223372036854775808&pageSize=20\<close> has a
  \<^verbatim>\<open>page\<close> that does not parse (range error), and the page is not 1 but the largest
  \<^verbatim>\<open>int\<close>.
\<close>

theorem Paginate_unparseable_page_counterexample:
  "snd (Atoi (FormValue (req ''9223372036854775808'' ''20'') ''page'')) = Some ErrRange \<and>
   Paginate_page (req ''9223372036854775808'' ''20'') = 9223372036854775807 \<and>
   Paginate_page (req ''9223372036854775808'' ''20'') \<noteq> 1"
  by (simp add: Paginate_eval)

text \<open>
  C9, amended. The two parameters are read with \<^verbatim>\<open>Atoi\<close> and its error is dropped. A
  \<^verbatim>\<open>pageSize\<close> value above 100 becomes 100, a value of 0 or less becomes 10, any other value
  is kept; a \<^verbatim>\<open>page\<close> value of 0 becomes 1, any other value is kept. An absent parameter
  and one with a syntax error read as 0, so \<^verbatim>\<open>pageSize\<close> becomes 10 and \<^verbatim>\<open>page\<close> becomes 1.
  A numeral out of range reads as the bound of \<^verbatim>\<open>int\<close> with its sign, so \<^verbatim>\<open>pageSize\<close> becomes
  100 or 10 and \<^verbatim>\<open>page\<close> is that bound. The offset is \<open>(page - 1) * pageSize\<close> in 64-bit
  arithmetic, which is the exact product whenever that fits.
\<close>

theorem Paginate_normalization:
  "(fst (Atoi (FormValue r ''pageSize'')) > 100 \<longrightarrow> Paginate_pageSize r = 100) \<and>
   (fst (Atoi (FormValue r ''pageSize'')) \<le> 0 \<longrightarrow> Paginate_pageSize r = 10) \<and>
   (0 < fst (Atoi (FormValue r ''pageSize'')) \<and> fst (Atoi (FormValue r ''pageSize'')) \<le> 100
      \<longrightarrow> Paginate_pageSize r = fst (Atoi (FormValue r ''pageSize''))) \<and>
   (fst (Atoi (FormValue r ''page'')) = 0 \<longrightarrow> Paginate_page r = 1) \<and>
   (fst (Atoi (FormValue r ''page'')) \<noteq> 0
      \<longrightarrow> Paginate_page r = fst (Atoi (FormValue r ''page''))) \<and>
   (FormValue r ''pageSize'' = '''' \<or> snd (Atoi (FormValue r ''pageSize'')) = Some ErrSyntax
      \<longrightarrow> Paginate_pageSize r = 10) \<and>
   (FormValue r ''page'' = '''' \<or> snd (Atoi (FormValue r ''page'')) = Some ErrSyntax
      \<longrightarrow> Paginate_page r = 1) \<and>
   (snd (Atoi (FormValue r ''pageSize'')) = Some ErrRange
      \<longrightarrow> Paginate_pageSize r = 100 \<or> Paginate_pageSize r = 10) \<and>
   (snd (Atoi (FormValue r ''page'')) = Some ErrRange
      \<longrightarrow> Paginate_page r = MaxInt64 \<or> Paginate_page r = MinInt64) \<and>
   Paginate r = (int64 ((Paginate_page r - 1) * Paginate_pageSize r), Paginate_pageSize r) \<and>
   (is_int64 ((Paginate_page r - 1) * Paginate_pageSize r)
      \<longrightarrow> fst (Paginate r) = (Paginate_page r - 1) * Paginate_pageSize r) \<and>
   (snd (Atoi (FormValue r ''pageSize'')) = Some ErrRange
      \<longrightarrow> Paginate_pageSize r = (if hd (FormValue r ''pageSize'') = CHR ''-'' then 10 else 100)) \<and>
   (snd (Atoi (FormValue r ''page'')) = Some ErrRange
      \<longrightarrow> Paginate_page r = (if hd (FormValue r ''page'') = CHR ''-'' then MinInt64 else MaxInt64))"
proof -
  have size: "Paginate_pageSize r =
      (if fst (Atoi (FormValue r ''pageSize'')) > 100 then 100
       else if fst (Atoi (FormValue r ''pageSize'')) \<le> 0 then 10
       else fst (Atoi (FormValue r ''pageSize'')))"
    by (simp add: Paginate_pageSize_def Let_def)
  have page: "Paginate_page r =
      (if fst (Atoi (FormValue r ''page'')) = 0 then 1 else fst (Atoi (FormValue r ''page'')))"
    by (simp add: Paginate_page_def Let_def)
  have syn_size: "FormValue r ''pageSize'' = '''' \<or>
      snd (Atoi (FormValue r ''pageSize'')) = Some ErrSyntax
      \<Longrightarrow> fst (Atoi (FormValue r ''pageSize'')) = 0"
    using Atoi_ErrSyntax [of "FormValue r ''pageSize''"] by (auto simp: Atoi_empty)
  have syn_page: "FormValue r ''page'' = '''' \<or>
      snd (Atoi (FormValue r ''page'')) = Some ErrSyntax
      \<Longrightarrow> fst (Atoi (FormValue r ''page'')) = 0"
    using Atoi_ErrSyntax [of "FormValue r ''page''"] by (auto simp: Atoi_empty)
  have rng_size: "snd (Atoi (FormValue r ''pageSize'')) = Some ErrRange
      \<Longrightarrow> Paginate_pageSize r = 100 \<or> Paginate_pageSize r = 10"
    using Atoi_ErrRange [of "FormValue r ''pageSize''"]
    by (auto simp: size MinInt64_def MaxInt64_def)
  have rng_page: "snd (Atoi (FormValue r ''page'')) = Some ErrRange
      \<Longrightarrow> Paginate_page r = MaxInt64 \<or> Paginate_page r = MinInt64"
    using Atoi_ErrRange [of "FormValue r ''page''"]
    by (auto simp: page MinInt64_def MaxInt64_def)
  have pag: "Paginate r =
      (int64 ((Paginate_page r - 1) * Paginate_pageSize r), Paginate_pageSize r)"
    by (simp add: Paginate_def Paginate_offset_def)
  have sgn_size: "snd (Atoi (FormValue r ''pageSize'')) = Some ErrRange
      \<Longrightarrow> Paginate_pageSize r = (if hd (FormValue r ''pageSize'') = CHR ''-'' then 10 else 100)"
    using Atoi_range_sign [of "FormValue r ''pageSize''"]
    by (simp add: size MinInt64_def MaxInt64_def)
  have sgn_page: "snd (Atoi (FormValue r ''page'')) = Some ErrRange
      \<Longrightarrow> Paginate_page r = (if hd (FormValue r ''page'') = CHR ''-'' then MinInt64 else MaxInt64)"
    using Atoi_range_sign [of "FormValue r ''page''"]
    by (simp add: page MinInt64_def MaxInt64_def)
  have main: "(fst (Atoi (FormValue r ''pageSize'')) > 100 \<longrightarrow> Paginate_pageSize r = 100) \<and>
   (fst (Atoi (FormValue r ''pageSize'')) \<le> 0 \<longrightarrow> Paginate_pageSize r = 10) \<and>
   (0 < fst (Atoi (FormValue r ''pageSize'')) \<and> fst (Atoi (FormValue r ''pageSize'')) \<le> 100
      \<longrightarrow> Paginate_pageSize r = fst (Atoi (FormValue r ''pageSize''))) \<and>
   (fst (Atoi (FormValue r ''page'')) = 0 \<longrightarrow> Paginate_page r = 1) \<and>
   (fst (Atoi (FormValue r ''page'')) \<noteq> 0
      \<longrightarrow> Paginate_page r = fst (Atoi (FormValue r ''page''))) \<and>
   (FormValue r ''pageSize'' = '''' \<or> snd (Atoi (FormValue r ''pageSize'')) = Some ErrSyntax
      \<longrightarrow> Paginate_pageSize r = 10) \<and>
   (FormValue r ''page'' = '''' \<or> snd (Atoi (FormValue r ''page'')) = Some ErrSyntax
      \<longrightarrow> Paginate_page r = 1) \<and>
   (snd (Atoi (FormValue r ''pageSize'')) = Some ErrRange
      \<longrightarrow> Paginate_pageSize r = 100 \<or> Paginate_pageSize r = 10) \<and>
   (snd (Atoi (FormValue r ''page'')) = Some ErrRange
      \<longrightarrow> Paginate_page r = MaxInt64 \<or> Paginate_page r = MinInt64) \<and>
   Paginate r = (int64 ((Paginate_page r - 1) * Paginate_pageSize r), Paginate_pageSize r) \<and>
   (is_int64 ((Paginate_page r - 1) * Paginate_pageSize r)
      \<longrightarrow> fst (Paginate r) = (Paginate_page r - 1) * Paginate_pageSize r)"
    using size page syn_size syn_page rng_size rng_page pag
    by (simp add: int64_id)
  from main sgn_size sgn_page show ?thesis by blast
qed

text \<open>The scenario of the specification (\<^verbatim>\<open>pageSize=500\<close>, \<^verbatim>\<open>page=0\<close>), an absent page with
  a malformed page size, a negative page size, values in range, and numerals out of range
  of either sign.\<close>

theorem Paginate_normalization_witness:
  "Paginate_pageSize (req ''0'' ''500'') = 100 \<and> Paginate_page (req ''0'' ''500'') = 1 \<and>
   Paginate (req ''0'' ''500'') = (0, 100) \<and>
   Paginate (req '''' ''abc'') = (0, 10) \<and>
   Paginate (req ''3'' ''-4'') = (20, 10) \<and>
   Paginate (req ''3'' ''25'') = (50, 25) \<and>
   Paginate_page (req ''9223372036854775808'' ''9223372036854775808'') = MaxInt64 \<and>
   Paginate_pageSize (req ''9223372036854775808'' ''9223372036854775808'') = 100 \<and>
   snd (Atoi (FormValue (req ''-9223372036854775809'' ''-9223372036854775809'') ''page'')) =
     Some ErrRange \<and>
   Paginate_page (req ''-9223372036854775809'' ''-9223372036854775809'') = MinInt64 \<and>
   Paginate_pageSize (req ''-9223372036854775809'' ''-9223372036854775809'') = 10"
  using Paginate_normalization [of "req ''0'' ''500''"]
        Paginate_normalization [of "req '''' ''abc''"]
        Paginate_normalization [of "req ''3'' ''-4''"]
        Paginate_normalization [of "req ''3'' ''25''"]
        Paginate_normalization [of "req ''9223372036854775808'' ''9223372036854775808''"]
        Paginate_normalization [of "req ''-9223372036854775809'' ''-9223372036854775809''"]
  by (simp add: Paginate_eval)

section \<open>The frame of a sweep write\<close>

text \<open>
  C10. Every write of a sweep pass (\<^verbatim>\<open>Save\<close>, and so every pass of \<^verbatim>\<open>CheckSuccess\<close>) keeps
  the rows of the store and changes none of \<^verbatim>\<open>id\<close>, \<^verbatim>\<open>blockchain\<close>, \<^verbatim>\<open>metadata\<close> and
  \<^verbatim>\<open>reviewed\<close> in any row: only \<^verbatim>\<open>success\<close>, \<^verbatim>\<open>pending\<close>, \<^verbatim>\<open>error\<close>, \<^verbatim>\<open>monitoring\<close> and
  \<^verbatim>\<open>checks\<close> can differ afterwards. The write commutes with \<^verbatim>\<open>SetReviewed\<close>, so a reviewed
  flag set while the pass is in flight is not overwritten, whichever of the two writes
  lands first.
\<close>

theorem sweep_write_frame:
  "map (\<lambda>r. (ID r, Blockchain r, Metadata r, Reviewed r)) (snd (Save w t db)) =
     map (\<lambda>r. (ID r, Blockchain r, Metadata r, Reviewed r)) db \<and>
   map (\<lambda>r. (ID r, Blockchain r, Metadata r, Reviewed r)) (snd (snd (CheckSuccess w t db))) =
     map (\<lambda>r. (ID r, Blockchain r, Metadata r, Reviewed r)) db \<and>
   snd (Save w t (snd (SetReviewed u db))) = snd (SetReviewed u (snd (Save w t db)))"
proof -
  have "map (\<lambda>r. (ID r, Blockchain r, Metadata r, Reviewed r)) (snd (snd (CheckSuccess w t db))) =
     map (\<lambda>r. (ID r, Blockchain r, Metadata r, Reviewed r)) db"
  proof (cases "Clients w (Blockchain t)")
    case None
    then show ?thesis by (simp add: CheckSuccess_not_found)
  next
    case (Some c)
    from CheckSuccess_found [OF Some, of db] obtain v e where
      "CheckSuccess w t db = (e, fst (Save w v db), snd (Save w v db))" by blast
    then show ?thesis by (simp add: Save_frame)
  qed
  then show ?thesis
    using Save_frame [of w t db] Save_SetReviewed_commute [of w t u db] by blast
qed

text \<open>The record is marked reviewed after the snapshot was taken (the snapshot
  \<open>tx_abc\<close> is unreviewed, the row is reviewed); after the pass the row still is.\<close>

theorem sweep_write_frame_witness:
  "snd (snd (CheckSuccess world5_mined tx_abc [tx_abc_reviewed])) = [tx_abc_confirmed_reviewed] \<and>
   \<not> Reviewed tx_abc \<and> Reviewed tx_abc_reviewed \<and> Reviewed tx_abc_confirmed_reviewed \<and>
   Metadata tx_abc_confirmed_reviewed = Metadata tx_abc_reviewed"
proof -
  from sweep_write_frame [of world5_mined tx_abc "[tx_abc_reviewed]"]
  have "Reviewed tx_abc_confirmed_reviewed = Reviewed tx_abc_reviewed \<and>
        Metadata tx_abc_confirmed_reviewed = Metadata tx_abc_reviewed"
    by (simp add: pass_tx_abc_reviewed_row)
  moreover have "\<not> Reviewed tx_abc \<and> Reviewed tx_abc_reviewed"
    by (simp add: scenario_defs)
  ultimately show ?thesis
    by (simp add: pass_tx_abc_reviewed_row)
qed

end
